theory Spec2Isabelle
  imports Main
begin

section \<open>Values, JavaScript widgets and errors\<close>

text \<open>
  The form inputs of \<^verbatim>\<open>client_code/components/FormInputs.py\<close> hold Python values
  and proxies of JavaScript widgets. A Python value is one of the shapes the inputs
  receive; a calendar date and a naive date-time carry their fields, a JavaScript
  \<^verbatim>\<open>Date\<close> carries its epoch milliseconds.
\<close>

datatype date = Date (year: int) (month: int) (day: int)

datatype datetime =
  DateTime (dt_year: int) (dt_month: int) (dt_day: int)
           (dt_hour: int) (dt_minute: int) (dt_second: int) (dt_microsecond: int)

datatype pyval =
    PNone
  | PBool bool
  | PInt int
  | PStr string
  | PDate date
  | PDateTime datetime
  | JSDate int
  | PMethod string
  | PList "pyval list"
  | PDict "(string \<times> pyval) list"

text \<open>The exceptions of Python that the modelled code can raise, and
  \<open>UnresolvedFieldError\<close>, which the specification names and no code of the repository
  defines or raises.\<close>

datatype error =
    AttributeError string
  | KeyError string
  | TypeError string
  | ValueError string
  | RecursionError
  | UnresolvedFieldError string

text \<open>Python truthiness (\<^verbatim>\<open>if x:\<close>); a JavaScript proxy object is truthy.\<close>

fun truthy :: "pyval \<Rightarrow> bool" where
  "truthy PNone = False"
| "truthy (PBool b) = b"
| "truthy (PInt n) = (n \<noteq> 0)"
| "truthy (PStr s) = (s \<noteq> [])"
| "truthy (PList xs) = (xs \<noteq> [])"
| "truthy (PDict d) = (d \<noteq> [])"
| "truthy _ = True"

text \<open>
  A widget is a JavaScript object: a list of named properties. Reading a property the
  object does not have yields \<^verbatim>\<open>undefined\<close>, which the proxy hands to Python as
  \<^verbatim>\<open>None\<close>; assigning a property creates or overwrites it.
\<close>

type_synonym jsobj = "(string \<times> pyval) list"

fun js_get :: "string \<Rightarrow> jsobj \<Rightarrow> pyval" where
  "js_get k [] = PNone"
| "js_get k ((k', v) # w) = (if k = k' then v else js_get k w)"

fun js_set :: "string \<Rightarrow> pyval \<Rightarrow> jsobj \<Rightarrow> jsobj" where
  "js_set k v [] = [(k, v)]"
| "js_set k v ((k', v') # w) = (if k = k' then (k, v) # w else (k', v') # js_set k v w)"

text \<open>\<^verbatim>\<open>widget.appendTo(selector)\<close> of the toolkit: the widget records its host.\<close>

definition appendTo :: "string \<Rightarrow> jsobj \<Rightarrow> jsobj" where
  "appendTo sel w = js_set ''element'' (PStr sel) w"

section \<open>The input controls\<close>

datatype input_class =
    BaseInput | TextInput | MultiLineInput | NumberInput
  | DateInput | DateTimeInput | TimeInput
  | CheckboxInput | RadioButtonInput
  | DropdownInput | LookupInput
  | SignatureInput | FileUploadInput | InlineMessage

text \<open>One entry of \<^verbatim>\<open>RadioButtonInput.options\<close>: a dict with the keys
  \<^verbatim>\<open>value\<close>, \<^verbatim>\<open>label\<close> (optional), \<^verbatim>\<open>el_id\<close> and, once created,
  \<^verbatim>\<open>control\<close>.\<close>

record radio_option =
  opt_value :: pyval
  opt_label :: "pyval option"
  opt_el_id :: string
  opt_control :: "jsobj option"

text \<open>
  The instance attributes of an input. The attributes \<^verbatim>\<open>_value\<close>,
  \<^verbatim>\<open>_enabled\<close>, \<^verbatim>\<open>_control\<close>, \<^verbatim>\<open>_options\<close> are \<open>u_value\<close>, \<open>u_enabled\<close>,
  \<open>u_control\<close>, \<open>u_options\<close>. The two document nodes the inputs write are fields too:
  \<open>container_html\<close> is the \<^verbatim>\<open>innerHTML\<close> of the element \<^verbatim>\<open>container_id\<close>
  (taken to exist), and \<open>el_html\<close> is the \<^verbatim>\<open>innerHTML\<close> of the element
  \<^verbatim>\<open>el_id\<close> of an inline message, \<open>None\<close> while that element is not in the
  document.
\<close>

record input =
  cls :: input_class
  name :: string
  label :: string
  shadow_label :: string
  float_label :: bool
  u_value :: pyval
  u_enabled :: pyval
  el_id :: string
  html :: string
  u_control :: "jsobj option"
  visible :: bool
  label_position :: string
  options :: "radio_option list"
  select :: string
  dd_fields :: pyval
  u_options :: pyval
  add_item_label :: string
  add_item_form :: bool
  add_item_model :: "string option"
  add_el_id :: "string option"
  multiple :: bool
  message :: pyval
  container_html :: string
  el_html :: "pyval option"

text \<open>The \<^verbatim>\<open>control\<close> property setter of \<^verbatim>\<open>BaseInput\<close>.\<close>

definition set_control :: "jsobj option \<Rightarrow> input \<Rightarrow> input" where
  "set_control v s =
     (case v of
        None \<Rightarrow> s\<lparr>u_control := None\<rparr>
      | Some w \<Rightarrow>
          (let w1 = js_set ''change'' (PMethod ''change'') w;
               w2 = (if float_label s then js_set ''floatLabelType'' (PStr ''Always'') w1 else w1)
           in s\<lparr>u_control := Some w2\<rparr>))"

subsection \<open>The \<^verbatim>\<open>enabled\<close> property\<close>

text \<open>
  The getter of \<^verbatim>\<open>BaseInput\<close> returns inside the \<^verbatim>\<open>if\<close> only; without a
  widget the function falls off its end and the caller receives \<^verbatim>\<open>None\<close>.
  \<^verbatim>\<open>CheckboxInput\<close> overrides both accessors; its getter reads the property
  \<^verbatim>\<open>disbled\<close> of the widget.
\<close>

definition get_enabled :: "input \<Rightarrow> pyval \<times> input" where
  "get_enabled s =
     (case u_control s of
        None \<Rightarrow> (PNone, s)
      | Some w \<Rightarrow>
          (if cls s = CheckboxInput
           then (let e = PBool (\<not> truthy (js_get ''disbled'' w)) in (e, s\<lparr>u_enabled := e\<rparr>))
           else (let e = js_get ''enabled'' w in (e, s\<lparr>u_enabled := e\<rparr>))))"

definition set_enabled :: "pyval \<Rightarrow> input \<Rightarrow> input" where
  "set_enabled v s =
     (let s1 = s\<lparr>u_enabled := v\<rparr>
      in case u_control s1 of
           None \<Rightarrow> s1
         | Some w \<Rightarrow>
             (if cls s = CheckboxInput
              then s1\<lparr>u_control := Some (js_set ''disabled'' (PBool (\<not> truthy v)) w)\<rparr>
              else s1\<lparr>u_control := Some (js_set ''enabled'' v w)\<rparr>))"

subsection \<open>Dates, times and the runtime\<close>

text \<open>
  What the inputs use of the Python and JavaScript runtimes and is no code of this
  repository: the local time zone, a fixed offset \<open>tz\<close> in seconds east of UTC, the two
  ISO parsers \<^verbatim>\<open>date.fromisoformat\<close> and \<^verbatim>\<open>datetime.fromisoformat\<close>, and the
  identifier the next call of \<^verbatim>\<open>new_el_id()\<close> returns.
\<close>

record runtime =
  tz :: int
  date_fromisoformat :: "string \<Rightarrow> error + date"
  datetime_fromisoformat :: "string \<Rightarrow> error + datetime"
  new_el_id :: string

text \<open>Days between 1970-01-01 and a date of the proleptic Gregorian calendar, and back.\<close>

definition days_from_civil :: "int \<Rightarrow> int \<Rightarrow> int \<Rightarrow> int" where
  "days_from_civil y m d =
     (let y1 = (if m \<le> 2 then y - 1 else y);
          era = y1 div 400;
          yoe = y1 - era * 400;
          doy = (153 * (if m > 2 then m - 3 else m + 9) + 2) div 5 + d - 1;
          doe = yoe * 365 + yoe div 4 - yoe div 100 + doy
      in era * 146097 + doe - 719468)"

definition civil_from_days :: "int \<Rightarrow> date" where
  "civil_from_days z0 =
     (let z = z0 + 719468;
          era = z div 146097;
          doe = z - era * 146097;
          yoe = (doe - doe div 1460 + doe div 36524 - doe div 146096) div 365;
          doy = doe - (365 * yoe + yoe div 4 - yoe div 100);
          mp = (5 * doy + 2) div 153;
          d = doy - (153 * mp + 2) div 5 + 1;
          m = (if mp < 10 then mp + 3 else mp - 9);
          y = yoe + era * 400
      in Date (if m \<le> 2 then y + 1 else y) m d)"

text \<open>\<^verbatim>\<open>int(dt.strftime('%s'))\<close>: the whole seconds since the epoch of a naive
  date-time read as local time; the microseconds are not part of it.\<close>

definition py_timestamp :: "runtime \<Rightarrow> datetime \<Rightarrow> int" where
  "py_timestamp rt dt =
     days_from_civil (dt_year dt) (dt_month dt) (dt_day dt) * 86400
       + dt_hour dt * 3600 + dt_minute dt * 60 + dt_second dt - tz rt"

text \<open>\<^verbatim>\<open>datetime.date.fromtimestamp(ms / 1000)\<close> and
  \<^verbatim>\<open>datetime.datetime.fromtimestamp(ms / 1000)\<close> on the epoch milliseconds of a
  JavaScript date; a year outside 1..9999 is refused.\<close>

definition date_fromtimestamp :: "runtime \<Rightarrow> int \<Rightarrow> error + date" where
  "date_fromtimestamp rt ms =
     (let d = civil_from_days ((ms div 1000 + tz rt) div 86400)
      in if year d < 1 \<or> 9999 < year d then Inl (ValueError ''year out of range'') else Inr d)"

definition datetime_fromtimestamp :: "runtime \<Rightarrow> int \<Rightarrow> error + datetime" where
  "datetime_fromtimestamp rt ms =
     (let secs = ms div 1000 + tz rt;
          d = civil_from_days (secs div 86400);
          r = secs mod 86400
      in if year d < 1 \<or> 9999 < year d then Inl (ValueError ''year out of range'')
         else Inr (DateTime (year d) (month d) (day d)
                     (r div 3600) ((r mod 3600) div 60) (r mod 60) ((ms mod 1000) * 1000)))"

text \<open>\<^verbatim>\<open>Date.getHours()\<close> and \<^verbatim>\<open>Date.getMinutes()\<close>: local time.\<close>

definition getHours :: "runtime \<Rightarrow> int \<Rightarrow> int" where
  "getHours rt ms = ((ms div 1000 + tz rt) mod 86400) div 3600"

definition getMinutes :: "runtime \<Rightarrow> int \<Rightarrow> int" where
  "getMinutes rt ms = (((ms div 1000 + tz rt) mod 86400) mod 3600) div 60"

text \<open>\<^verbatim>\<open>datetime.datetime.combine(d, datetime.datetime.min.time())\<close>; a date-time
  is a date too and gives its date part.\<close>

fun combine_midnight :: "pyval \<Rightarrow> error + datetime" where
  "combine_midnight (PDate d) = Inr (DateTime (year d) (month d) (day d) 0 0 0 0)"
| "combine_midnight (PDateTime dt) = Inr (DateTime (dt_year dt) (dt_month dt) (dt_day dt) 0 0 0 0)"
| "combine_midnight _ = Inl (TypeError ''combine'')"

subsection \<open>Python subscripts, iteration and equality\<close>

fun py_getitem :: "pyval \<Rightarrow> string \<Rightarrow> error + pyval" where
  "py_getitem (PDict d) k = (case map_of d k of None \<Rightarrow> Inl (KeyError k) | Some v \<Rightarrow> Inr v)"
| "py_getitem _ k = Inl (TypeError ''not subscriptable'')"

fun py_iter :: "pyval \<Rightarrow> error + pyval list" where
  "py_iter (PList xs) = Inr xs"
| "py_iter (PDict d) = Inr (map (\<lambda>p. PStr (fst p)) d)"
| "py_iter (PStr cs) = Inr (map (\<lambda>c. PStr [c]) cs)"
| "py_iter _ = Inl (TypeError ''not iterable'')"

text \<open>A list comprehension whose element expression may raise: the first error wins.\<close>

fun map_result :: "('a \<Rightarrow> error + 'b) \<Rightarrow> 'a list \<Rightarrow> error + 'b list" where
  "map_result f [] = Inr []"
| "map_result f (x # xs) =
     (case f x of
        Inl e \<Rightarrow> Inl e
      | Inr y \<Rightarrow> (case map_result f xs of Inl e \<Rightarrow> Inl e | Inr ys \<Rightarrow> Inr (y # ys)))"

text \<open>Python's \<^verbatim>\<open>==\<close>: a bool is the int 0 or 1; other values compare by structure.\<close>

fun py_eq :: "pyval \<Rightarrow> pyval \<Rightarrow> bool" where
  "py_eq (PBool b) (PInt n) = ((if b then 1 else 0) = n)"
| "py_eq (PInt n) (PBool b) = (n = (if b then 1 else 0))"
| "py_eq a b = (a = b)"

subsection \<open>The \<^verbatim>\<open>value\<close> property, class by class\<close>

text \<open>
  An accessor that raises leaves the input as it was at the \<^verbatim>\<open>raise\<close>: the error
  comes with that state. A getter returns the value and the input, whose cache it may
  have refreshed.
\<close>

type_synonym 'a res = "(error \<times> input) + 'a"

definition set_widget_prop :: "string \<Rightarrow> pyval \<Rightarrow> input \<Rightarrow> input" where
  "set_widget_prop k v s = s\<lparr>u_control := map_option (js_set k v) (u_control s)\<rparr>"

definition BaseInput_get_value :: "input \<Rightarrow> pyval \<times> input" where
  "BaseInput_get_value s =
     (case u_control s of
        None \<Rightarrow> (u_value s, s)
      | Some w \<Rightarrow> (js_get ''value'' w, s\<lparr>u_value := js_get ''value'' w\<rparr>))"

definition BaseInput_set_value :: "pyval \<Rightarrow> input \<Rightarrow> input" where
  "BaseInput_set_value v s =
     (if u_control s \<noteq> None then set_widget_prop ''value'' v s else s)"

definition DateInput_get_value :: "runtime \<Rightarrow> input \<Rightarrow> (pyval \<times> input) res" where
  "DateInput_get_value rt s =
     (case u_control s of
        None \<Rightarrow> Inr (u_value s, s)
      | Some w \<Rightarrow>
          (case js_get ''value'' w of
             PNone \<Rightarrow> Inr (u_value s, s)
           | JSDate epoch \<Rightarrow>
               (case date_fromtimestamp rt epoch of
                  Inl e \<Rightarrow> Inl (e, s)
                | Inr d \<Rightarrow> Inr (PDate d, s\<lparr>u_value := PDate d\<rparr>))
           | _ \<Rightarrow> Inl (AttributeError ''getTime'', s)))"

definition DateInput_set_value :: "runtime \<Rightarrow> pyval \<Rightarrow> input \<Rightarrow> input res" where
  "DateInput_set_value rt v s =
     (if v = PNone
      then Inr (let s1 = s\<lparr>u_value := PNone\<rparr>
                in if u_control s1 \<noteq> None then set_widget_prop ''value'' PNone s1 else s1)
      else
        (case (case v of
                 PDate d \<Rightarrow> Inr v
               | PDateTime dt \<Rightarrow> Inr v
               | PStr str \<Rightarrow> map_sum id PDate (date_fromisoformat rt str)
               | JSDate ms \<Rightarrow> map_sum id PDate (date_fromtimestamp rt ms)
               | _ \<Rightarrow> Inl (AttributeError ''getTime'')) of
           Inl e \<Rightarrow> Inl (e, s)
         | Inr d \<Rightarrow>
             (let s1 = s\<lparr>u_value := d\<rparr>
              in if u_control s1 \<noteq> None
                 then (case combine_midnight d of
                         Inl e \<Rightarrow> Inl (e, s1)
                       | Inr dt \<Rightarrow>
                           Inr (set_widget_prop ''value'' (JSDate (py_timestamp rt dt * 1000)) s1))
                 else Inr s1)))"

definition DateTimeInput_get_value :: "runtime \<Rightarrow> input \<Rightarrow> (pyval \<times> input) res" where
  "DateTimeInput_get_value rt s =
     (case u_control s of
        None \<Rightarrow> Inr (u_value s, s)
      | Some w \<Rightarrow>
          (case js_get ''value'' w of
             PNone \<Rightarrow> Inr (u_value s, s)
           | JSDate epoch \<Rightarrow>
               (case datetime_fromtimestamp rt epoch of
                  Inl e \<Rightarrow> Inl (e, s)
                | Inr dt \<Rightarrow> Inr (PDateTime dt, s\<lparr>u_value := PDateTime dt\<rparr>))
           | _ \<Rightarrow> Inl (AttributeError ''getTime'', s)))"

text \<open>The setters of \<^verbatim>\<open>DateTimeInput\<close> and \<^verbatim>\<open>TimeInput\<close> are the same text.\<close>

definition DateTimeInput_set_value :: "runtime \<Rightarrow> pyval \<Rightarrow> input \<Rightarrow> input res" where
  "DateTimeInput_set_value rt v s =
     (if v = PNone
      then Inr (let s1 = s\<lparr>u_value := PNone\<rparr>
                in if u_control s1 \<noteq> None then set_widget_prop ''value'' PNone s1 else s1)
      else
        (case (case v of
                 PDateTime dt \<Rightarrow> Inr dt
               | PStr str \<Rightarrow> datetime_fromisoformat rt str
               | JSDate ms \<Rightarrow> datetime_fromtimestamp rt ms
               | _ \<Rightarrow> Inl (AttributeError ''getTime'')) of
           Inl e \<Rightarrow> Inl (e, s)
         | Inr dt \<Rightarrow>
             (let s1 = s\<lparr>u_value := PDateTime dt\<rparr>
              in if u_control s1 \<noteq> None \<and> v \<noteq> PNone
                 then Inr (set_widget_prop ''value'' (JSDate (py_timestamp rt dt * 1000)) s1)
                 else Inr s1)))"

definition TimeInput_get_value :: "runtime \<Rightarrow> input \<Rightarrow> (pyval \<times> input) res" where
  "TimeInput_get_value rt s =
     (case u_control s of
        None \<Rightarrow> Inr (u_value s, s)
      | Some w \<Rightarrow>
          (case js_get ''value'' w of
             PNone \<Rightarrow> Inr (u_value s, s)
           | JSDate ms \<Rightarrow>
               (let hours = getHours rt ms;
                    minutes = getMinutes rt ms;
                    t = PDateTime (DateTime 1970 1 1 hours minutes 0 0)
                in Inr (t, s\<lparr>u_value := t\<rparr>))
           | _ \<Rightarrow> Inl (AttributeError ''getHours'', s)))"

definition TimeInput_set_value :: "runtime \<Rightarrow> pyval \<Rightarrow> input \<Rightarrow> input res" where
  "TimeInput_set_value rt v s = DateTimeInput_set_value rt v s"

definition CheckboxInput_get_value :: "input \<Rightarrow> pyval \<times> input" where
  "CheckboxInput_get_value s =
     (case u_control s of
        None \<Rightarrow> (u_value s, s)
      | Some w \<Rightarrow> (js_get ''checked'' w, s\<lparr>u_value := js_get ''checked'' w\<rparr>))"

definition CheckboxInput_set_value :: "pyval \<Rightarrow> input \<Rightarrow> input" where
  "CheckboxInput_set_value v s =
     (let s1 = s\<lparr>u_value := v\<rparr>
      in if u_control s1 \<noteq> None then set_widget_prop ''checked'' (u_value s1) s1 else s1)"

text \<open>
  \<^verbatim>\<open>RadioButtonInput\<close>: one widget per option. The getter takes the value of the
  last checked option (the toolkit keeps the constructor's \<^verbatim>\<open>value\<close> in the
  widget's \<^verbatim>\<open>properties\<close>); the setter checks every option whose value equals the
  new one and unchecks none.
\<close>

fun radio_scan :: "radio_option list \<Rightarrow> pyval \<Rightarrow> pyval" where
  "radio_scan [] acc = acc"
| "radio_scan (opt # opts) acc =
     (case opt_control opt of
        Some w \<Rightarrow>
          (if js_get ''checked'' w = PBool True then radio_scan opts (js_get ''value'' w)
           else radio_scan opts acc)
      | None \<Rightarrow> radio_scan opts acc)"

definition RadioButtonInput_get_value :: "input \<Rightarrow> pyval \<times> input" where
  "RadioButtonInput_get_value s =
     (let v = radio_scan (options s) (u_value s) in (v, s\<lparr>u_value := v\<rparr>))"

definition radio_check :: "pyval \<Rightarrow> radio_option \<Rightarrow> radio_option" where
  "radio_check v opt =
     (case opt_control opt of
        Some w \<Rightarrow>
          (if py_eq (opt_value opt) v
           then opt\<lparr>opt_control := Some (js_set ''checked'' (PBool True) w)\<rparr>
           else opt)
      | None \<Rightarrow> opt)"

definition RadioButtonInput_set_value :: "pyval \<Rightarrow> input \<Rightarrow> input" where
  "RadioButtonInput_set_value v s =
     (let s1 = s\<lparr>u_value := v\<rparr>
      in s1\<lparr>options := map (radio_check (u_value s1)) (options s1)\<rparr>)"

definition DropdownInput_get_value :: "input \<Rightarrow> pyval \<times> input" where
  "DropdownInput_get_value s =
     (case u_control s of
        None \<Rightarrow> (u_value s, s)
      | Some w \<Rightarrow>
          (if js_get ''value'' w \<noteq> PNone
           then (js_get ''value'' w, s\<lparr>u_value := js_get ''value'' w\<rparr>)
           else (u_value s, s)))"

definition DropdownInput_set_value :: "pyval \<Rightarrow> input \<Rightarrow> input" where
  "DropdownInput_set_value v s =
     (let s1 = s\<lparr>u_value := v\<rparr>
      in if u_control s1 \<noteq> None then set_widget_prop ''value'' v s1 else s1)"

text \<open>\<^verbatim>\<open>getDataByValue\<close> of the toolkit's dropdowns: the item of the data source
  whose value field (named by \<^verbatim>\<open>fields.value\<close>) is the given value, else nothing.\<close>

definition getDataByValue :: "jsobj \<Rightarrow> pyval \<Rightarrow> pyval" where
  "getDataByValue w v =
     (case (js_get ''dataSource'' w, py_getitem (js_get ''fields'' w) ''value'') of
        (PList items, Inr (PStr vf)) \<Rightarrow>
          (case find (\<lambda>it. py_getitem it vf = Inr v) items of
             Some it \<Rightarrow> it
           | None \<Rightarrow> PNone)
      | _ \<Rightarrow> PNone)"

definition LookupInput_get_value :: "input \<Rightarrow> (pyval \<times> input) res" where
  "LookupInput_get_value s =
     (case u_control s of
        None \<Rightarrow> Inr (u_value s, s)
      | Some w \<Rightarrow>
          (if js_get ''value'' w \<noteq> PNone
           then (if select s = ''single''
                 then (let v = getDataByValue w (js_get ''value'' w)
                       in Inr (v, s\<lparr>u_value := v\<rparr>))
                 else (case py_iter (js_get ''value'' w) of
                         Inl e \<Rightarrow> Inl (e, s)
                       | Inr items \<Rightarrow>
                           (let v = PList (map (getDataByValue w) items)
                            in Inr (v, s\<lparr>u_value := v\<rparr>))))
           else Inr (u_value s, s)))"

definition LookupInput_set_value :: "pyval \<Rightarrow> input \<Rightarrow> input res" where
  "LookupInput_set_value v s =
     (if u_control s \<noteq> None
      then (if truthy v
            then (if select s = ''single''
                  then (case py_getitem v ''uid'' of
                          Inl e \<Rightarrow> Inl (e, s)
                        | Inr uid \<Rightarrow> Inr (set_widget_prop ''value'' uid s))
                  else (case py_iter v of
                          Inl e \<Rightarrow> Inl (e, s)
                        | Inr items \<Rightarrow>
                            (case map_result (\<lambda>item. py_getitem item ''uid'') items of
                               Inl e \<Rightarrow> Inl (e, s)
                             | Inr uids \<Rightarrow> Inr (set_widget_prop ''value'' (PList uids) s))))
            else Inr (set_widget_prop ''value'' PNone s))
      else Inr s)"

text \<open>\<^verbatim>\<open>SignatureInput\<close>: the drawing surface keeps the payload
  (\<^verbatim>\<open>getSignature\<close>, \<^verbatim>\<open>load\<close>). The getter returns inside its \<^verbatim>\<open>if\<close> only.\<close>

definition SignatureInput_get_value :: "input \<Rightarrow> pyval \<times> input" where
  "SignatureInput_get_value s =
     (case u_control s of
        None \<Rightarrow> (PNone, s)
      | Some w \<Rightarrow> (js_get ''signature'' w, s\<lparr>u_value := js_get ''signature'' w\<rparr>))"

definition SignatureInput_set_value :: "pyval \<Rightarrow> input \<Rightarrow> input" where
  "SignatureInput_set_value v s =
     (let s1 = s\<lparr>u_value := v\<rparr>
      in if u_control s1 \<noteq> None \<and> v \<noteq> PNone then set_widget_prop ''signature'' v s1 else s1)"

definition FileUploadInput_get_value :: "input \<Rightarrow> pyval \<times> input" where
  "FileUploadInput_get_value s = (u_value s, s)"

definition FileUploadInput_set_value :: "pyval \<Rightarrow> input \<Rightarrow> input" where
  "FileUploadInput_set_value v s = s\<lparr>u_value := v\<rparr>"

text \<open>\<^verbatim>\<open>InlineMessage\<close>: the setter writes the document element \<^verbatim>\<open>el_id\<close>; when
  that element is not in the document, \<^verbatim>\<open>getElementById\<close> gives \<^verbatim>\<open>None\<close> and the
  assignment to its \<^verbatim>\<open>innerHTML\<close> raises, after \<^verbatim>\<open>message\<close> was stored.\<close>

definition InlineMessage_get_value :: "input \<Rightarrow> pyval \<times> input" where
  "InlineMessage_get_value s = (message s, s\<lparr>u_value := message s\<rparr>)"

definition InlineMessage_set_value :: "pyval \<Rightarrow> input \<Rightarrow> input res" where
  "InlineMessage_set_value v s =
     (let s1 = s\<lparr>message := v\<rparr>
      in case el_html s1 of
           None \<Rightarrow> Inl (AttributeError ''innerHTML'', s1)
         | Some old \<Rightarrow> Inr (s1\<lparr>el_html := Some (message s1)\<rparr>))"

text \<open>The property as Python resolves it: the accessor of the input's class, or the one
  it inherits from \<^verbatim>\<open>BaseInput\<close> (\<^verbatim>\<open>DropdownInput\<close> for nothing here:
  \<^verbatim>\<open>LookupInput\<close> overrides both).\<close>

definition get_value :: "runtime \<Rightarrow> input \<Rightarrow> (pyval \<times> input) res" where
  "get_value rt s =
     (case cls s of
        DateInput \<Rightarrow> DateInput_get_value rt s
      | DateTimeInput \<Rightarrow> DateTimeInput_get_value rt s
      | TimeInput \<Rightarrow> TimeInput_get_value rt s
      | CheckboxInput \<Rightarrow> Inr (CheckboxInput_get_value s)
      | RadioButtonInput \<Rightarrow> Inr (RadioButtonInput_get_value s)
      | DropdownInput \<Rightarrow> Inr (DropdownInput_get_value s)
      | LookupInput \<Rightarrow> LookupInput_get_value s
      | SignatureInput \<Rightarrow> Inr (SignatureInput_get_value s)
      | FileUploadInput \<Rightarrow> Inr (FileUploadInput_get_value s)
      | InlineMessage \<Rightarrow> Inr (InlineMessage_get_value s)
      | _ \<Rightarrow> Inr (BaseInput_get_value s))"

definition set_value :: "runtime \<Rightarrow> pyval \<Rightarrow> input \<Rightarrow> input res" where
  "set_value rt v s =
     (case cls s of
        DateInput \<Rightarrow> DateInput_set_value rt v s
      | DateTimeInput \<Rightarrow> DateTimeInput_set_value rt v s
      | TimeInput \<Rightarrow> TimeInput_set_value rt v s
      | CheckboxInput \<Rightarrow> Inr (CheckboxInput_set_value v s)
      | RadioButtonInput \<Rightarrow> Inr (RadioButtonInput_set_value v s)
      | DropdownInput \<Rightarrow> Inr (DropdownInput_set_value v s)
      | LookupInput \<Rightarrow> LookupInput_set_value v s
      | SignatureInput \<Rightarrow> Inr (SignatureInput_set_value v s)
      | FileUploadInput \<Rightarrow> Inr (FileUploadInput_set_value v s)
      | InlineMessage \<Rightarrow> InlineMessage_set_value v s
      | _ \<Rightarrow> Inr (BaseInput_set_value v s))"

subsection \<open>Creating the widget\<close>

text \<open>A widget of the toolkit, as its constructor receives it: the constructor's name
  and the configuration object.\<close>

definition ej_new :: "string \<Rightarrow> jsobj \<Rightarrow> jsobj" where
  "ej_new kind config = (''constructor'', PStr kind) # config"

definition footerTemplate :: "string \<Rightarrow> string \<Rightarrow> string" where
  "footerTemplate add_id add_label =
     ''<button class='' @ [CHR 0x22] @ ''e-control e-btn e-lib e-flat'' @ [CHR 0x22]
       @ '' type='' @ [CHR 0x22] @ ''button'' @ [CHR 0x22]
       @ '' id='' @ [CHR 0x22] @ add_id @ [CHR 0x22] @ ''>+ '' @ add_label @ ''</button>''"

definition DropdownInput_create_control :: "input \<Rightarrow> input" where
  "DropdownInput_create_control s =
     (if select s = ''single''
      then set_control (Some (ej_new ''ej.dropdowns.DropDownList''
             [(''placeholder'', PStr (label s)), (''showClearButton'', PBool True),
              (''fields'', dd_fields s), (''dataSource'', u_options s),
              (''allowFiltering'', PBool True)])) s
      else if select s = ''multi''
      then set_control (Some (ej_new ''ej.dropdowns.MultiSelect''
             [(''placeholder'', PStr (label s)), (''showClearButton'', PBool True),
              (''fields'', dd_fields s), (''dataSource'', u_options s),
              (''showDropDownIcon'', PBool True), (''allowFiltering'', PBool True)])) s
      else s)"

definition LookupInput_create_control :: "runtime \<Rightarrow> input \<Rightarrow> input res" where
  "LookupInput_create_control rt s =
     (let s1 = DropdownInput_create_control s
      in if add_item_form s1 \<or> add_item_model s1 \<noteq> None
         then (let s2 = s1\<lparr>add_el_id := Some (new_el_id rt)\<rparr>
               in case u_control s2 of
                    None \<Rightarrow> Inl (AttributeError ''footerTemplate'', s2)
                  | Some w \<Rightarrow>
                      Inr (s2\<lparr>u_control := Some
                        (js_set ''close'' (PMethod ''control_close'')
                          (js_set ''open'' (PMethod ''control_open'')
                            (js_set ''footerTemplate''
                               (PStr (footerTemplate (new_el_id rt) (add_item_label s2))) w)))\<rparr>))
         else Inr s1)"

definition radio_button :: "input \<Rightarrow> radio_option \<Rightarrow> radio_option" where
  "radio_button s opt =
     opt\<lparr>opt_control := Some (ej_new ''ej.buttons.RadioButton''
       [(''name'', PStr (name s)), (''value'', opt_value opt),
        (''label'', (case opt_label opt of Some l \<Rightarrow> l | None \<Rightarrow> opt_value opt)),
        (''change'', PMethod ''change'')])\<rparr>"

definition RadioButtonInput_create_control :: "input \<Rightarrow> input" where
  "RadioButtonInput_create_control s =
     (let s1 = s\<lparr>options := map (radio_button s) (options s)\<rparr>
      in RadioButtonInput_set_value (u_value s1) s1)"

definition create_control :: "runtime \<Rightarrow> input \<Rightarrow> input res" where
  "create_control rt s =
     (case cls s of
        TextInput \<Rightarrow>
          Inr (set_control (Some (ej_new ''ej.inputs.TextBox'' [(''placeholder'', PStr (label s))])) s)
      | MultiLineInput \<Rightarrow>
          Inr (set_control (Some (ej_new ''ej.inputs.TextBox'' [(''placeholder'', PStr (label s))])) s)
      | NumberInput \<Rightarrow>
          Inr (set_control (Some (ej_new ''ej.inputs.NumericTextBox''
                 [(''placeholder'', PStr (label s)), (''showSpinButton'', PBool False)])) s)
      | DateInput \<Rightarrow>
          Inr (set_control (Some (ej_new ''ej.calendars.DatePicker'' [(''placeholder'', PStr (label s))])) s)
      | DateTimeInput \<Rightarrow>
          Inr (set_control (Some (ej_new ''ej.calendars.DateTimePicker'' [(''placeholder'', PStr (label s))])) s)
      | TimeInput \<Rightarrow>
          Inr (set_control (Some (ej_new ''ej.calendars.TimePicker'' [(''placeholder'', PStr (label s))])) s)
      | CheckboxInput \<Rightarrow>
          Inr (set_control (Some (ej_new ''ej.buttons.CheckBox''
                 [(''label'', PStr (label s)), (''labelPosition'', PStr (label_position s)),
                  (''cssClass'', PStr ''pm-checkbox-input'')])) s)
      | RadioButtonInput \<Rightarrow> Inr (RadioButtonInput_create_control s)
      | DropdownInput \<Rightarrow> Inr (DropdownInput_create_control s)
      | LookupInput \<Rightarrow> LookupInput_create_control rt s
      | SignatureInput \<Rightarrow>
          Inr (set_control (Some (ej_new ''ej.inputs.Signature'' [(''placeholder'', PStr (label s))])) s)
      | FileUploadInput \<Rightarrow>
          Inr (set_control (Some (ej_new ''ej.inputs.Uploader''
                 [(''multiple'', PBool (multiple s)), (''selected'', PMethod ''upload_files''),
                  (''removing'', PMethod ''remove_upload'')])) s)
      | _ \<Rightarrow> Inr s)"

subsection \<open>\<^verbatim>\<open>show\<close>, \<^verbatim>\<open>hide\<close>, \<^verbatim>\<open>destroy\<close>\<close>

definition BaseInput_show :: "runtime \<Rightarrow> input \<Rightarrow> input res" where
  "BaseInput_show rt s =
     (if \<not> visible s
      then (let s1 = s\<lparr>container_html := html s @ shadow_label s\<rparr>
            in case (if u_control s1 = None then create_control rt s1 else Inr s1) of
                 Inl x \<Rightarrow> Inl x
               | Inr s2 \<Rightarrow>
                   (case u_control s2 of
                      None \<Rightarrow> Inl (AttributeError ''appendTo'', s2)
                    | Some w \<Rightarrow>
                        (let s3 = s2\<lparr>u_control := Some (appendTo (''#'' @ el_id s2) w)\<rparr>
                         in case set_value rt (u_value s3) s3 of
                              Inl x \<Rightarrow> Inl x
                            | Inr s4 \<Rightarrow>
                                (let s5 = s4\<lparr>visible := True\<rparr>
                                 in Inr (set_enabled (u_enabled s5) s5)))))
      else Inr s)"

definition radio_append :: "radio_option \<Rightarrow> radio_option" where
  "radio_append opt =
     opt\<lparr>opt_control := map_option (appendTo (''#'' @ opt_el_id opt)) (opt_control opt)\<rparr>"

definition RadioButtonInput_show :: "input \<Rightarrow> input" where
  "RadioButtonInput_show s =
     (if \<not> visible s
      then (let s1 = s\<lparr>container_html := html s\<rparr>;
                s2 = RadioButtonInput_create_control s1;
                s3 = s2\<lparr>options := map radio_append (options s2)\<rparr>;
                s4 = RadioButtonInput_set_value (u_value s3) s3
            in s4\<lparr>visible := True\<rparr>)
      else s)"

definition InlineMessage_show :: "input \<Rightarrow> input" where
  "InlineMessage_show s =
     (if \<not> visible s
      then s\<lparr>container_html := html s, el_html := Some (message s), visible := True\<rparr>
      else s)"

definition "show" :: "runtime \<Rightarrow> input \<Rightarrow> input res" where
  "show rt s =
     (case cls s of
        RadioButtonInput \<Rightarrow> Inr (RadioButtonInput_show s)
      | InlineMessage \<Rightarrow> Inr (InlineMessage_show s)
      | _ \<Rightarrow> BaseInput_show rt s)"

text \<open>Emptying the container takes the element \<^verbatim>\<open>el_id\<close> out of the document.\<close>

definition hide :: "input \<Rightarrow> input" where
  "hide s = (if visible s then s\<lparr>container_html := [], el_html := None, visible := False\<rparr> else s)"

definition destroy :: "input \<Rightarrow> input" where
  "destroy s = (if u_control s \<noteq> None then s\<lparr>u_control := None\<rparr> else s)"

text \<open>
  The attributes \<^verbatim>\<open>BaseInput.__init__\<close> assigns, for the keyword arguments
  \<^verbatim>\<open>name\<close>, \<^verbatim>\<open>label\<close>, \<^verbatim>\<open>value\<close>, \<^verbatim>\<open>enabled\<close>, \<^verbatim>\<open>el_id\<close> and the
  others at their defaults (\<^verbatim>\<open>float_label=True\<close>, \<^verbatim>\<open>shadow_label=False\<close>); the
  markup of the class is passed in. \<^verbatim>\<open>FileUploadInput\<close> starts from an empty list
  whatever \<^verbatim>\<open>value\<close> is; the attributes of the other subclasses are at the defaults
  of their constructors.
\<close>

definition new_input ::
  "input_class \<Rightarrow> string \<Rightarrow> string \<Rightarrow> pyval \<Rightarrow> pyval \<Rightarrow> string \<Rightarrow> string \<Rightarrow> input" where
  "new_input c nm lbl v en eid markup =
     \<lparr>cls = c, name = nm, label = lbl, shadow_label = [], float_label = True,
      u_value = (if c = FileUploadInput then PList [] else v), u_enabled = en,
      el_id = eid, html = markup, u_control = None, visible = False,
      label_position = ''After'', options = [], select = ''single'',
      dd_fields = PDict [(''text'', PStr ''name''), (''value'', PStr ''uid'')],
      u_options = PNone, add_item_label = ''Add Item'', add_item_form = False,
      add_item_model = None, add_el_id = None, multiple = False, message = PNone,
      container_html = [], el_html = None\<rparr>"

section \<open>The grid view\<close>

text \<open>
  \<^verbatim>\<open>client_code/components/GridView.py\<close>. The data model classes
  (\<^verbatim>\<open>client_code/datamodel\<close>) are not among the sources; the grid reads of a
  model class its \<^verbatim>\<open>_title\<close> and the three dictionaries \<^verbatim>\<open>_attributes\<close>,
  \<^verbatim>\<open>_computes\<close>, \<^verbatim>\<open>_relationships\<close>, of an attribute its \<^verbatim>\<open>field_type\<close>
  with \<^verbatim>\<open>GridType\<close> and \<^verbatim>\<open>GridFormat\<close>, and of a relationship its
  \<^verbatim>\<open>class_name\<close>. A dictionary is a list of pairs with distinct keys, in insertion
  order. A field type is a member of the enumeration \<^verbatim>\<open>FieldTypes\<close>, known by its
  name.
\<close>

record field_type =
  ft_name :: string
  GridType :: pyval
  GridFormat :: pyval

record attribute =
  field_type :: field_type

record relationship =
  class_name :: string

record model_class =
  u_title :: "string option"
  u_attributes :: "(string \<times> attribute) list"
  u_computes :: "(string \<times> attribute) list"
  u_relationships :: "(string \<times> relationship) list"

text \<open>\<^verbatim>\<open>str.split('.')\<close> and \<^verbatim>\<open>'.'.join\<close>.\<close>

fun split_dot :: "string \<Rightarrow> string list" where
  "split_dot [] = [[]]"
| "split_dot (c # cs) =
     (if c = CHR ''.'' then [] # split_dot cs
      else (case split_dot cs of x # xs \<Rightarrow> (c # x) # xs | [] \<Rightarrow> [[c]]))"

fun join_dot :: "string list \<Rightarrow> string" where
  "join_dot [] = []"
| "join_dot [x] = x"
| "join_dot (x # y # ys) = x @ ''.'' @ join_dot (y # ys)"

text \<open>The second component of the pair that \<^verbatim>\<open>get_model_attribute\<close> returns: the
  name as a string, or the list of its segments once the name was split.\<close>

datatype attr_name = Name string | Segments "string list"

text \<open>
  \<^verbatim>\<open>get_model_attribute(class_name, attr_name)\<close> over the namespace
  \<^verbatim>\<open>AppEnv.data_models\<close>. The recursion follows relationships and the titles of the
  related classes, which may lead back; the first argument is the depth of recursion
  the interpreter allows, beyond which Python raises \<^verbatim>\<open>RecursionError\<close>.
\<close>

fun get_model_attribute ::
  "nat \<Rightarrow> (string \<times> model_class) list \<Rightarrow> string \<Rightarrow> string
     \<Rightarrow> error + (attribute option \<times> attr_name)" where
  "get_model_attribute 0 data_models cname attr_name = Inl RecursionError"
| "get_model_attribute (Suc depth) data_models cname attr_name =
     (case map_of data_models cname of
        None \<Rightarrow> Inl (AttributeError cname)
      | Some klass \<Rightarrow>
          (case (if attr_name = ''_title''
                 then (case u_title klass of
                         None \<Rightarrow> Inl (AttributeError ''_title'')
                       | Some t \<Rightarrow> Inr t)
                 else Inr attr_name) of
             Inl e \<Rightarrow> Inl e
           | Inr attr_name \<Rightarrow>
               (case map_of (u_attributes klass) attr_name of
                  Some attr \<Rightarrow> Inr (Some attr, Name attr_name)
                | None \<Rightarrow>
                    (case map_of (u_computes klass) attr_name of
                       Some attr \<Rightarrow> Inr (Some attr, Name attr_name)
                     | None \<Rightarrow>
                         (if CHR ''.'' \<in> set attr_name
                          then (case split_dot attr_name of
                                  [] \<Rightarrow> Inr (None, Segments [])
                                | first # rest \<Rightarrow>
                                    (case map_of (u_attributes klass) first of
                                       Some attr \<Rightarrow> Inr (Some attr, Segments (first # rest))
                                     | None \<Rightarrow>
                                         (case map_of (u_relationships klass) first of
                                            Some rel \<Rightarrow>
                                              (case get_model_attribute depth data_models
                                                      (class_name rel) (join_dot rest) of
                                                 Inl e \<Rightarrow> Inl e
                                               | Inr (attr, _) \<Rightarrow>
                                                   Inr (attr, Segments (first # rest)))
                                          | None \<Rightarrow> Inr (None, Segments (first # rest)))))
                          else Inr (None, Name attr_name))))))"

subsection \<open>The application environment and the constants of the module\<close>

text \<open>
  What \<^verbatim>\<open>GridView\<close> reads of \<^verbatim>\<open>AppEnv\<close> and of code that is not among the
  sources: the model namespace, \<^verbatim>\<open>AppEnv.grid_settings\<close>, the stored views
  (\<^verbatim>\<open>appGridViews.get_by('name', view_name)\<close> followed by \<^verbatim>\<open>json.loads\<close> of its
  \<^verbatim>\<open>config\<close>), the row view of a record
  (\<^verbatim>\<open>data_row.get_row_view(columns, include_row=False)\<close>), and the recursion depth
  of the interpreter.
\<close>

record app_env =
  data_models :: "(string \<times> model_class) list"
  grid_settings :: "(string \<times> pyval) list"
  stored_views :: "string \<Rightarrow> error + pyval"
  get_row_view :: "pyval \<Rightarrow> pyval \<Rightarrow> pyval"
  recursion_limit :: nat

definition GRID_DEFAULT_FILTER_SETTINGS :: pyval where
  "GRID_DEFAULT_FILTER_SETTINGS = PDict [(''type'', PStr ''Menu'')]"

definition GRID_DEFAULT_TOOLBAR_ITEMS :: "pyval list" where
  "GRID_DEFAULT_TOOLBAR_ITEMS =
     [PDict [(''id'', PStr ''search-on''), (''text'', PStr []), (''prefixIcon'', PStr ''e-search''),
             (''tooltipText'', PStr ''Search''), (''align'', PStr ''Right'')],
      PDict [(''id'', PStr ''add''), (''text'', PStr []), (''prefixIcon'', PStr ''e-add''),
             (''tooltipText'', PStr ''Add''), (''align'', PStr ''Right'')]]"

definition GRID_DEFAULT_MODES :: pyval where
  "GRID_DEFAULT_MODES =
     PList [PStr ''Sort'', PStr ''Filter'', PStr ''InfiniteScroll'', PStr ''Toolbar'',
            PStr ''Edit'', PStr ''ForeignKey'', PStr ''Selection'']"

definition GRID_MODE_TO_SWITCH :: "(string \<times> string) list" where
  "GRID_MODE_TO_SWITCH =
     [(''Sort'', ''allowSorting''), (''Filter'', ''allowFiltering''),
      (''Group'', ''allowGrouping''), (''Page'', ''allowPaging''),
      (''InfiniteScroll'', ''enableInfiniteScrolling''), (''ExcelExport'', ''allowExcelExport''),
      (''PdfExport'', ''allowPdfExport''), (''Reorder'', ''allowReordering''),
      (''Resize'', ''allowResizing''), (''RowDD'', ''allowRowDragAndDrop''),
      (''Selection'', ''allowSelection'')]"

definition GRID_DEFAULT_EDIT_SETTINGS :: pyval where
  "GRID_DEFAULT_EDIT_SETTINGS =
     PDict [(''allowAdding'', PBool True), (''allowEditing'', PBool True),
            (''allowDeleting'', PBool True), (''mode'', PStr ''Dialog''),
            (''allowEditOnDblClick'', PBool True), (''showConfirmDialog'', PBool True),
            (''showDeleteConfirmDialog'', PBool True), (''allowScrolling'', PBool True)]"

definition GRID_DEFAULT_SELECTION_SETTINGS :: pyval where
  "GRID_DEFAULT_SELECTION_SETTINGS =
     PDict [(''type'', PStr ''Multiple''), (''mode'', PStr ''Row''),
            (''checkboxOnly'', PBool True), (''persistSelection'', PBool True)]"

definition GRID_DEFAULT_COLUMN_WIDTH :: int where
  "GRID_DEFAULT_COLUMN_WIDTH = 150"

subsection \<open>More of Python\<close>

text \<open>\<^verbatim>\<open>d.get(k, default)\<close>, \<^verbatim>\<open>a or b\<close>, \<^verbatim>\<open>x in c\<close>, and the text an f-string
  gives for a list of strings.\<close>

fun py_get :: "pyval \<Rightarrow> string \<Rightarrow> pyval \<Rightarrow> error + pyval" where
  "py_get (PDict d) k dflt = Inr (case map_of d k of None \<Rightarrow> dflt | Some v \<Rightarrow> v)"
| "py_get _ k dflt = Inl (AttributeError ''get'')"

definition py_or :: "pyval \<Rightarrow> pyval \<Rightarrow> pyval" where
  "py_or a b = (if truthy a then a else b)"

fun is_substring :: "string \<Rightarrow> string \<Rightarrow> bool" where
  "is_substring p [] = (p = [])"
| "is_substring p (c # cs) = (take (length p) (c # cs) = p \<or> is_substring p cs)"

fun py_contains :: "string \<Rightarrow> pyval \<Rightarrow> error + bool" where
  "py_contains k (PList xs) = Inr (PStr k \<in> set xs)"
| "py_contains k (PDict d) = Inr (k \<in> set (map fst d))"
| "py_contains k (PStr s) = Inr (is_substring k s)"
| "py_contains k _ = Inl (TypeError ''not iterable'')"

fun join_comma :: "string list \<Rightarrow> string" where
  "join_comma [] = []"
| "join_comma [x] = x"
| "join_comma (x # y # ys) = x @ '', '' @ join_comma (y # ys)"

definition py_repr_strs :: "string list \<Rightarrow> string" where
  "py_repr_strs xs = ''['' @ join_comma (map (\<lambda>x. [CHR 0x27] @ x @ [CHR 0x27]) xs) @ '']''"

fun format_attr_name :: "attr_name \<Rightarrow> string" where
  "format_attr_name (Name n) = n"
| "format_attr_name (Segments xs) = py_repr_strs xs"

text \<open>\<^verbatim>\<open>utils.camel_to_title\<close>: the matches of \<^verbatim>\<open>[A-Z][^A-Z]*\<close>, joined by
  spaces. \<open>camel_words cur acc s\<close> scans \<open>s\<close> with the match in progress \<open>cur\<close>
  (none before the first capital) and the finished matches \<open>acc\<close>.\<close>

definition is_capital :: "char \<Rightarrow> bool" where
  "is_capital c = (c \<in> set ''ABCDEFGHIJKLMNOPQRSTUVWXYZ'')"

fun camel_words :: "string option \<Rightarrow> string list \<Rightarrow> string \<Rightarrow> string list" where
  "camel_words None acc [] = acc"
| "camel_words (Some w) acc [] = acc @ [w]"
| "camel_words None acc (c # cs) =
     (if is_capital c then camel_words (Some [c]) acc cs else camel_words None acc cs)"
| "camel_words (Some w) acc (c # cs) =
     (if is_capital c then camel_words (Some [c]) (acc @ [w]) cs
      else camel_words (Some (w @ [c])) acc cs)"

fun join_space :: "string list \<Rightarrow> string" where
  "join_space [] = []"
| "join_space [x] = x"
| "join_space (x # y # ys) = x @ '' '' @ join_space (y # ys)"

definition camel_to_title :: "string \<Rightarrow> string" where
  "camel_to_title s = join_space (camel_words None [] s)"

text \<open>\<^verbatim>\<open>string.capwords\<close> on ASCII text: the words between runs of white space,
  each with its first letter in upper case and the others in lower case, joined by single
  spaces.\<close>

definition to_upper :: "char \<Rightarrow> char" where
  "to_upper c =
     (case map_of (zip ''abcdefghijklmnopqrstuvwxyz'' ''ABCDEFGHIJKLMNOPQRSTUVWXYZ'') c of
        Some u \<Rightarrow> u | None \<Rightarrow> c)"

definition to_lower :: "char \<Rightarrow> char" where
  "to_lower c =
     (case map_of (zip ''ABCDEFGHIJKLMNOPQRSTUVWXYZ'' ''abcdefghijklmnopqrstuvwxyz'') c of
        Some l \<Rightarrow> l | None \<Rightarrow> c)"

definition is_space :: "char \<Rightarrow> bool" where
  "is_space c = (c \<in> {CHR '' '', CHR 0x09, CHR 0x0A, CHR 0x0B, CHR 0x0C, CHR 0x0D})"

fun split_words :: "string \<Rightarrow> string list \<Rightarrow> string \<Rightarrow> string list" where
  "split_words cur acc [] = (if cur = [] then acc else acc @ [cur])"
| "split_words cur acc (c # cs) =
     (if is_space c then split_words [] (if cur = [] then acc else acc @ [cur]) cs
      else split_words (cur @ [c]) acc cs)"

fun capitalize :: "string \<Rightarrow> string" where
  "capitalize [] = []"
| "capitalize (c # cs) = to_upper c # map to_lower cs"

definition capwords :: "string \<Rightarrow> string" where
  "capwords s = join_space (map capitalize (split_words [] [] s))"

subsection \<open>Constructing the grid view\<close>

definition bind_err :: "error + 'a \<Rightarrow> ('a \<Rightarrow> error + 'b) \<Rightarrow> error + 'b" where
  "bind_err r f = (case r of Inl e \<Rightarrow> Inl e | Inr x \<Rightarrow> f x)"

definition label_of :: "app_env \<Rightarrow> string \<Rightarrow> pyval" where
  "label_of env attr_name =
     PStr (capwords (map (\<lambda>c. if c = CHR ''_'' then CHR '' '' else c) attr_name))"

text \<open>The columns of the automatic view: the attributes, then the computed attributes
  (\<^verbatim>\<open>dict.update\<close> keeps the place of a key that is there already), then one column
  per relationship, named after the title of the related class.\<close>

definition derive_view_columns :: "app_env \<Rightarrow> model_class \<Rightarrow> error + pyval list" where
  "derive_view_columns env grid_class =
     (let attrs = map fst (u_attributes grid_class);
          model_members = attrs @ filter (\<lambda>n. n \<notin> set attrs) (map fst (u_computes grid_class));
          view_columns =
            map (\<lambda>attr_name. PDict [(''name'', PStr attr_name), (''label'', label_of env attr_name)])
                model_members
      in bind_err
           (map_result
              (\<lambda>(attr_name, attr).
                 bind_err (get_model_attribute (recursion_limit env) (data_models env)
                             (class_name attr) ''_title'')
                   (\<lambda>(title_attr, title_name).
                      Inr (PDict [(''name'', PStr (attr_name @ ''.'' @ format_attr_name title_name)),
                                  (''label'', label_of env attr_name)])))
              (u_relationships grid_class))
           (\<lambda>rel_columns. Inr (view_columns @ rel_columns)))"

text \<open>The first branch of the constructor: which model and which view configuration.\<close>

definition resolve_view_config ::
  "app_env \<Rightarrow> string option \<Rightarrow> string option \<Rightarrow> pyval option \<Rightarrow> error + (string \<times> pyval)" where
  "resolve_view_config env model_arg view_name view_config_arg =
     (if (case view_name of None \<Rightarrow> False | Some n \<Rightarrow> n \<noteq> [])
         \<or> (case view_config_arg of None \<Rightarrow> False | Some c \<Rightarrow> truthy c)
      then bind_err
             (case (view_config_arg, view_name) of
                (Some c, _) \<Rightarrow> Inr c
              | (None, Some n) \<Rightarrow> stored_views env n
              | (None, None) \<Rightarrow> Inl (TypeError ''view_name''))
             (\<lambda>c. bind_err (py_getitem c ''model'')
                (\<lambda>m. case m of
                       PStr mname \<Rightarrow>
                         (case map_of (data_models env) mname of
                            None \<Rightarrow> Inl (AttributeError mname)
                          | Some grid_class \<Rightarrow> Inr (mname, c))
                     | _ \<Rightarrow> Inl (TypeError ''getattr'')))
      else (case model_arg of
              None \<Rightarrow> Inl (TypeError ''getattr'')
            | Some mname \<Rightarrow>
                (case map_of (data_models env) mname of
                   None \<Rightarrow> Inl (AttributeError mname)
                 | Some grid_class \<Rightarrow>
                     bind_err (derive_view_columns env grid_class)
                       (\<lambda>view_columns.
                          Inr (mname, PDict [(''model'', PStr mname),
                                             (''columns'', PList view_columns)])))))"

definition uid_column :: pyval where
  "uid_column =
     PDict [(''field'', PStr ''uid''), (''headerText'', PStr ''UID''), (''visible'', PBool False),
            (''isPrimaryKey'', PBool True), (''width'', PStr ''0px'')]"

definition checkbox_column :: pyval where
  "checkbox_column = PDict [(''type'', PStr ''checkbox''), (''width'', PInt 30)]"

text \<open>The body of the column loop for a column that is no row action: the dictionary
  literal is evaluated entry by entry, so a missing \<^verbatim>\<open>label\<close> is reported before the
  missing attribute.\<close>

definition grid_column :: "app_env \<Rightarrow> string \<Rightarrow> pyval \<Rightarrow> error + pyval" where
  "grid_column env mname column =
     bind_err (py_getitem column ''name'')
       (\<lambda>nm. case nm of
          PStr n \<Rightarrow>
            bind_err (get_model_attribute (recursion_limit env) (data_models env) mname n)
              (\<lambda>(col_attr, _).
                 bind_err (py_getitem column ''label'')
                   (\<lambda>lbl. case col_attr of
                      None \<Rightarrow> Inl (AttributeError ''field_type'')
                    | Some a \<Rightarrow>
                        bind_err (py_get column ''format'' PNone)
                          (\<lambda>fmt. bind_err (py_get column ''width'' PNone)
                             (\<lambda>width.
                                Inr (PDict
                                  [(''field'', PStr (if CHR ''.'' \<in> set n
                                                     then (case split_dot n of x # _ \<Rightarrow> x | [] \<Rightarrow> [])
                                                     else n)),
                                   (''headerText'', lbl),
                                   (''type'', GridType (field_type a)),
                                   (''format'', py_or fmt (GridFormat (field_type a))),
                                   (''displayAsCheckBox'', PBool (ft_name (field_type a) = ''BOOLEAN'')),
                                   (''textAlign'', PStr ''Left''),
                                   (''customAttributes'', PDict [(''class'', PStr ''align-top'')]),
                                   (''width'', py_or width (PInt GRID_DEFAULT_COLUMN_WIDTH))])))))
        | _ \<Rightarrow> Inl (TypeError ''name''))"

fun build_grid_columns :: "app_env \<Rightarrow> string \<Rightarrow> pyval list \<Rightarrow> error + pyval list" where
  "build_grid_columns env mname [] = Inr []"
| "build_grid_columns env mname (column # columns) =
     bind_err (py_get column ''row_action'' (PBool False))
       (\<lambda>row_action.
          if truthy row_action then build_grid_columns env mname columns
          else bind_err (grid_column env mname column)
                 (\<lambda>c. bind_err (build_grid_columns env mname columns)
                    (\<lambda>cs. Inr (c # cs))))"

text \<open>
  The grid view after \<^verbatim>\<open>__init__\<close>. The list \<open>grid_columns\<close> is the one list
  object that \<^verbatim>\<open>grid_view['config']['columns']\<close> and \<^verbatim>\<open>grid_config['columns']\<close>
  both name; \<open>toolbar_items\<close> is the one list that \<^verbatim>\<open>grid_config['toolbar']\<close> names
  too; \<open>grid_config\<close> holds the other entries of the configuration in insertion order.
  \<open>dataSource\<close> is the row set of the toolkit's grid, and \<open>form_dialog\<close> the edit form
  that \<^verbatim>\<open>add_edit_row\<close> opened last, with its action and its record.
\<close>

record gridview =
  model :: string
  view_config :: pyval
  grid_view_config :: "(string \<times> pyval) list"
  grid_columns :: "pyval list"
  grid_config :: jsobj
  toolbar_items :: "pyval list"
  grid_title :: string
  dataSource :: "pyval list"
  form_dialog :: "(string \<times> pyval) option"

fun mode_switches :: "pyval list \<Rightarrow> jsobj \<Rightarrow> jsobj" where
  "mode_switches [] cfg = cfg"
| "mode_switches (grid_mode # modes) cfg =
     (case grid_mode of
        PStr m \<Rightarrow>
          (case map_of GRID_MODE_TO_SWITCH m of
             Some sw \<Rightarrow> mode_switches modes (if sw \<noteq> [] then js_set sw (PBool True) cfg else cfg)
           | None \<Rightarrow> mode_switches modes cfg)
      | _ \<Rightarrow> mode_switches modes cfg)"

definition title_item :: "string \<Rightarrow> pyval" where
  "title_item t =
     PDict [(''id'', PStr ''title''),
            (''template'', PStr (''<div class='' @ [CHR 0x22] @ ''h4 a-grid-view-title'' @ [CHR 0x22]
                                  @ ''>'' @ t @ ''</div>'')),
            (''align'', PStr ''Left'')]"

text \<open>The constructor from \<^verbatim>\<open># configure Grid control\<close> on, for the model name,
  the view configuration and the columns built by the loop.\<close>

definition configure_grid ::
  "app_env \<Rightarrow> string option \<Rightarrow> pyval \<Rightarrow> pyval \<Rightarrow> string \<Rightarrow> pyval \<Rightarrow> pyval list
     \<Rightarrow> error + gridview" where
  "configure_grid env title grid_modes toolbar_arg mname vc cols =
    (let grid_columns0 = uid_column # cols;
         config0 = js_set ''columns'' (PList grid_columns0) (case vc of PDict d \<Rightarrow> d | _ \<Rightarrow> []);
         t = (case title of Some t \<Rightarrow> t | None \<Rightarrow> camel_to_title mname);
         config1 =
           (if ''modes'' \<notin> set (map fst config0)
            then js_set ''modes''
                   (py_or grid_modes
                      (case map_of (grid_settings env) ''modes'' of
                         None \<Rightarrow> GRID_DEFAULT_MODES
                       | Some m \<Rightarrow> m)) config0
            else config0);
         modes = js_get ''modes'' config1
     in
     bind_err (py_iter modes)
       (\<lambda>mode_list.
     let cfg1 = mode_switches mode_list []
     in
     bind_err (py_contains ''Page'' modes)
       (\<lambda>page.
     bind_err (if page
               then bind_err (py_getitem (PDict config1) ''pageSize'')
                      (\<lambda>sz. Inr (js_set ''pageSettings'' (PDict [(''pageSize'', sz)])
                                  (js_set ''allowPaging'' (PBool True) cfg1)))
               else Inr (js_set ''pageSettings'' (PDict [(''pageSize'', PInt 1000000)]) cfg1))
       (\<lambda>cfg2.
     bind_err (py_contains ''Edit'' modes)
       (\<lambda>edit.
     let cfg3 = (if edit
                 then js_set ''editSettings''
                        (case map_of config1 ''editSettings'' of
                           None \<Rightarrow> GRID_DEFAULT_EDIT_SETTINGS
                         | Some e \<Rightarrow> e) cfg2
                 else cfg2)
     in
     bind_err (py_contains ''Toolbar'' modes)
       (\<lambda>toolbar.
     bind_err (if toolbar
               then (case py_or (py_or toolbar_arg
                                   (case map_of config1 ''toolbar'' of
                                      None \<Rightarrow> (case map_of (grid_settings env) ''toolbar_items'' of
                                                  None \<Rightarrow> PNone
                                                | Some ti \<Rightarrow> ti)
                                    | Some tb \<Rightarrow> tb))
                                (PList GRID_DEFAULT_TOOLBAR_ITEMS) of
                       PList items \<Rightarrow> Inr items
                     | _ \<Rightarrow> Inl (AttributeError ''copy''))
               else Inr [])
       (\<lambda>items.
     let cfg4 = js_set ''toolbarClick'' (PMethod ''toolbar_click'') cfg3;
         items1 = title_item t # items
     in
     bind_err (py_contains ''Filter'' modes)
       (\<lambda>filt.
     let cfg5 = (if filt then js_set ''filterSettings'' GRID_DEFAULT_FILTER_SETTINGS cfg4 else cfg4)
     in
     bind_err (py_contains ''Selection'' modes)
       (\<lambda>sel.
     let cfg6 = (if sel then js_set ''selectionSettings'' GRID_DEFAULT_SELECTION_SETTINGS cfg5 else cfg5);
         grid_columns1 = (if sel then checkbox_column # grid_columns0 else grid_columns0);
         cfg7 = js_set ''actionComplete'' (PMethod ''grid_action_handler'')
                 (js_set ''actionBegin'' (PMethod ''grid_action_handler'')
                   (js_set ''height'' (PStr ''100%'')
                     (js_set ''width'' (PStr ''100%'')
                       (js_set ''allowTextWrap'' (PBool True)
                         (js_set ''showColumnMenu'' (PBool True) cfg6)))))
     in Inr \<lparr>model = mname, view_config = vc,
             grid_view_config = js_set ''columns'' (PList grid_columns1) config1,
             grid_columns = grid_columns1, grid_config = cfg7, toolbar_items = items1,
             grid_title = t, dataSource = [], form_dialog = None\<rparr>)))))))))"

definition GridView_init ::
  "app_env \<Rightarrow> string option \<Rightarrow> string option \<Rightarrow> string option \<Rightarrow> pyval option
     \<Rightarrow> pyval \<Rightarrow> pyval \<Rightarrow> error + gridview" where
  "GridView_init env title model_arg view_name view_config_arg grid_modes toolbar_arg =
     bind_err (resolve_view_config env model_arg view_name view_config_arg)
       (\<lambda>(mname, vc).
     bind_err (py_getitem vc ''columns'')
       (\<lambda>view_columns.
     bind_err (py_iter view_columns)
       (\<lambda>columns.
     bind_err (build_grid_columns env mname columns)
       (\<lambda>cols.
          configure_grid env title grid_modes toolbar_arg mname vc cols))))"

subsection \<open>Patching rows and the grid's action handler\<close>

text \<open>Modelled from the spec: the toolkit grid's \<^verbatim>\<open>addRecord(row)\<close> is not among
  the sources; the specification has it insert the row as a new grid record at the
  top.\<close>

definition addRecord :: "pyval \<Rightarrow> pyval list \<Rightarrow> pyval list" where
  "addRecord grid_row data = grid_row # data"

text \<open>Modelled from the spec: the toolkit grid's \<^verbatim>\<open>setRowData(key, row)\<close> is not
  among the sources; the specification has it replace, in place, the existing row
  identified by the primary key, which is the column \<^verbatim>\<open>uid\<close>.\<close>

definition setRowData :: "pyval \<Rightarrow> pyval \<Rightarrow> pyval list \<Rightarrow> pyval list" where
  "setRowData key grid_row data =
     map (\<lambda>r. if py_getitem r ''uid'' = Inr key then grid_row else r) data"

definition update_grid :: "app_env \<Rightarrow> pyval \<Rightarrow> pyval \<Rightarrow> gridview \<Rightarrow> error + gridview" where
  "update_grid env data_row add_new g =
     bind_err (py_getitem (view_config g) ''columns'')
       (\<lambda>columns.
          let grid_row = get_row_view env data_row columns
          in if truthy add_new
             then Inr (g\<lparr>dataSource := addRecord grid_row (dataSource g)\<rparr>)
             else bind_err (py_getitem grid_row ''uid'')
                    (\<lambda>uid. Inr (g\<lparr>dataSource := setRowData uid grid_row (dataSource g)\<rparr>)))"

text \<open>Modelled from the spec: the backing model class (\<^verbatim>\<open>client_code/datamodel\<close>)
  is not among the sources. Its interface in the specification is
  \<^verbatim>\<open>get(id) -> record | null\<close> and \<^verbatim>\<open>delete(record)\<close>: the store maps the ids
  of the records that exist to the records, \<open>model_get\<close> looks an id up, and
  \<open>model_delete\<close> removes the record that was fetched under an id.\<close>

type_synonym store = "(pyval \<times> pyval) list"

definition model_get :: "store \<Rightarrow> pyval \<Rightarrow> pyval option" where
  "model_get db uid = map_of db uid"

definition model_delete :: "pyval \<Rightarrow> store \<Rightarrow> store" where
  "model_delete uid db = filter (\<lambda>p. fst p \<noteq> uid) db"

text \<open>The arguments of a grid event that the handler reads; \<^verbatim>\<open>args.type\<close> is
  \<open>args_type\<close>.\<close>

record action_args =
  requestType :: string
  args_type :: string
  rowData :: jsobj
  data :: "jsobj list"

text \<open>\<^verbatim>\<open>add_edit_row\<close>: the form that is opened, with its action and its record.
  Which form class is instantiated, and the closing of the toolkit's own dialog before,
  leave no trace in this state.\<close>

definition add_edit_row :: "action_args option \<Rightarrow> gridview \<times> store \<Rightarrow> gridview \<times> store" where
  "add_edit_row args gs =
     (let (g, db) = gs;
          (form_action, form_data) =
            (case args of
               Some a \<Rightarrow>
                 (if requestType a = ''beginEdit''
                  then (''edit'', (case model_get db (js_get ''uid'' (rowData a)) of
                                     None \<Rightarrow> PNone | Some r \<Rightarrow> r))
                  else (''add'', PNone))
             | None \<Rightarrow> (''add'', PNone))
      in (g\<lparr>form_dialog := Some (form_action, form_data)\<rparr>, db))"

text \<open>The loop of the \<^verbatim>\<open>delete\<close> branch.\<close>

fun delete_rows :: "jsobj list \<Rightarrow> store \<Rightarrow> store" where
  "delete_rows [] db = db"
| "delete_rows (gird_row # rows) db =
     (case model_get db (js_get ''uid'' gird_row) of
        Some db_row \<Rightarrow> delete_rows rows (model_delete (js_get ''uid'' gird_row) db)
      | None \<Rightarrow> delete_rows rows db)"

definition grid_action_handler :: "action_args \<Rightarrow> gridview \<times> store \<Rightarrow> gridview \<times> store" where
  "grid_action_handler args gs =
     (if requestType args \<in> {''beginEdit'', ''add'', ''delete''} \<and> args_type args = ''actionComplete''
      then (if requestType args \<in> {''beginEdit'', ''add''}
            then add_edit_row (Some args) gs
            else if requestType args = ''delete''
            then (fst gs, delete_rows (data args) (snd gs))
            else gs)
      else gs)"

section \<open>Examples\<close>

text \<open>A runtime in UTC whose ISO parsers accept nothing, and inputs as their
  constructors and a first \<^verbatim>\<open>show()\<close> leave them.\<close>

definition rt0 :: runtime where
  "rt0 = \<lparr>tz = 0, date_fromisoformat = (\<lambda>s. Inl (ValueError s)),
          datetime_fromisoformat = (\<lambda>s. Inl (ValueError s)), new_el_id = ''q0''\<rparr>"

definition text_input :: input where
  "text_input = new_input TextInput ''title'' ''Title'' (PStr ''draft'') (PBool True) ''e1'' ''<input id=e1>''"

definition text_shown :: input where
  "text_shown = text_input\<lparr>container_html := ''<input id=e1>'', visible := True,
     u_control := Some [(''constructor'', PStr ''ej.inputs.TextBox''),
              (''placeholder'', PStr ''Title''),
              (''change'', PMethod ''change''),
              (''floatLabelType'', PStr ''Always''),
              (''element'', PStr ''#e1''), (''value'', PStr ''draft''),
              (''enabled'', PBool True)]\<rparr>"

definition checkbox_input :: input where
  "checkbox_input = new_input CheckboxInput ''done'' ''Done'' (PBool True) (PBool False) ''e2'' ''<input id=e2>''"

definition time_input :: input where
  "time_input = new_input TimeInput ''at'' ''At'' PNone (PBool True) ''e3'' ''<input id=e3>''"

definition time_shown :: input where
  "time_shown = time_input\<lparr>container_html := ''<input id=e3>'', visible := True,
     u_control := Some [(''constructor'', PStr ''ej.calendars.TimePicker''),
         (''placeholder'', PStr ''At''), (''change'', PMethod ''change''),
         (''floatLabelType'', PStr ''Always''), (''element'', PStr ''#e3''),
         (''value'', PNone), (''enabled'', PBool True)]\<rparr>"

text \<open>A group of two radio buttons constructed with \<^verbatim>\<open>value='yes'\<close> and
  \<^verbatim>\<open>enabled=False\<close>, and an inline message constructed with
  \<^verbatim>\<open>message='saved'\<close>; neither has been shown.\<close>

definition radio_input :: input where
  "radio_input =
     (new_input RadioButtonInput ''choice'' ''Choice'' (PStr ''yes'') (PBool False) ''e4'' ''<div>'')
       \<lparr>options := [\<lparr>opt_value = PStr ''yes'', opt_label = Some (PStr ''yes''),
                      opt_el_id = ''q1'', opt_control = None\<rparr>,
                    \<lparr>opt_value = PStr ''no'', opt_label = Some (PStr ''no''),
                      opt_el_id = ''q2'', opt_control = None\<rparr>]\<rparr>"

definition inline_input :: input where
  "inline_input =
     (new_input InlineMessage ''note'' ''Note'' PNone (PBool True) ''e5'' ''<div id=e5>'')
       \<lparr>message := PStr ''saved''\<rparr>"

text \<open>A data model with the classes \<^verbatim>\<open>Order\<close> and \<^verbatim>\<open>Customer\<close>, one
  stored view named \<^verbatim>\<open>orders\<close>, and a row view that is the record itself.\<close>

definition string_type :: field_type where
  "string_type = \<lparr>ft_name = ''SINGLE_LINE'', GridType = PStr ''string'', GridFormat = PNone\<rparr>"

definition number_type :: field_type where
  "number_type = \<lparr>ft_name = ''NUMBER'', GridType = PStr ''number'', GridFormat = PStr ''N2''\<rparr>"

definition order_models :: "(string \<times> model_class) list" where
  "order_models =
     [(''Order'',
        \<lparr>u_title = Some ''name'',
         u_attributes = [(''name'', \<lparr>field_type = string_type\<rparr>),
                         (''amount'', \<lparr>field_type = number_type\<rparr>)],
         u_computes = [(''total'', \<lparr>field_type = number_type\<rparr>)],
         u_relationships = [(''customer'', \<lparr>class_name = ''Customer''\<rparr>)]\<rparr>),
      (''Customer'',
        \<lparr>u_title = Some ''name'',
         u_attributes = [(''name'', \<lparr>field_type = string_type\<rparr>)],
         u_computes = [],
         u_relationships = []\<rparr>)]"

definition orders_view :: pyval where
  "orders_view =
     PDict [(''model'', PStr ''Order''),
            (''columns'', PList [PDict [(''name'', PStr ''name''), (''label'', PStr ''Name'')],
                                 PDict [(''name'', PStr ''customer.name''),
                                        (''label'', PStr ''Customer'')]]),
            (''modes'', PList [PStr ''Sort'', PStr ''Toolbar''])]"

definition order_env :: app_env where
  "order_env =
     \<lparr>data_models = order_models, grid_settings = [],
      stored_views = (\<lambda>n. if n = ''orders'' then Inr orders_view else Inl (TypeError ''not subscriptable'')),
      get_row_view = (\<lambda>data_row columns. data_row),
      recursion_limit = 1000\<rparr>"

text \<open>Three rows of the backing store, an edited copy of the first, and the arguments
  of a delete event that selects the first, a row that exists no more, and the third.\<close>

definition row_a :: pyval where
  "row_a = PDict [(''uid'', PStr ''a''), (''name'', PStr ''first'')]"

definition row_b :: pyval where
  "row_b = PDict [(''uid'', PStr ''b''), (''name'', PStr ''second'')]"

definition row_c :: pyval where
  "row_c = PDict [(''uid'', PStr ''c''), (''name'', PStr ''third'')]"

definition row_a_edited :: pyval where
  "row_a_edited = PDict [(''uid'', PStr ''a''), (''name'', PStr ''renamed'')]"

definition order_store :: store where
  "order_store = [(PStr ''a'', row_a), (PStr ''b'', row_b), (PStr ''c'', row_c)]"

definition delete_args :: action_args where
  "delete_args =
     \<lparr>requestType = ''delete'', args_type = ''actionComplete'', rowData = [],
      data = [[(''uid'', PStr ''a'')], [(''uid'', PStr ''gone'')], [(''uid'', PStr ''c'')]]\<rparr>"

section \<open>Properties\<close>

lemma js_get_set_same: "js_get k (js_set k v w) = v"
  by (induction w) auto

lemma js_get_set_other: "k \<noteq> k' \<Longrightarrow> js_get k (js_set k' v w) = js_get k w"
  by (induction w) auto

lemmas value_defs = set_value_def BaseInput_set_value_def DateInput_set_value_def
  DateTimeInput_set_value_def TimeInput_set_value_def CheckboxInput_set_value_def
  RadioButtonInput_set_value_def DropdownInput_set_value_def LookupInput_set_value_def
  SignatureInput_set_value_def FileUploadInput_set_value_def InlineMessage_set_value_def
  set_widget_prop_def

lemmas create_defs = create_control_def set_control_def DropdownInput_create_control_def
  LookupInput_create_control_def RadioButtonInput_create_control_def RadioButtonInput_set_value_def

lemmas get_defs = get_value_def BaseInput_get_value_def DateInput_get_value_def
  DateTimeInput_get_value_def TimeInput_get_value_def CheckboxInput_get_value_def
  RadioButtonInput_get_value_def DropdownInput_get_value_def LookupInput_get_value_def
  SignatureInput_get_value_def FileUploadInput_get_value_def InlineMessage_get_value_def

lemmas show_defs = show_def BaseInput_show_def create_control_def set_control_def ej_new_def appendTo_def
   set_enabled_def

lemmas fixture_defs = rt0_def text_input_def text_shown_def checkbox_input_def time_input_def new_input_def

lemma text_show: "show rt0 text_input = Inr text_shown"
  by (simp add: text_input_def text_shown_def new_input_def show_defs value_defs)

lemma time_show: "show rt0 time_input = Inr time_shown"
  by (simp add: fixture_defs time_shown_def show_defs value_defs)

lemma create_control_keeps:
  "create_control rt s = Inr s' \<Longrightarrow>
     cls s' = cls s \<and> u_value s' = u_value s \<and> u_enabled s' = u_enabled s \<and> visible s' = visible s"
  by (cases "cls s") (auto simp: create_defs Let_def split: if_splits option.splits)

lemma set_value_keeps:
  "set_value rt v s = Inr s' \<Longrightarrow>
     cls s' = cls s \<and> u_enabled s' = u_enabled s \<and> visible s' = visible s \<and>
     (u_control s' = None \<longleftrightarrow> u_control s = None)"
  by (cases "cls s") (auto simp: value_defs Let_def split: if_splits option.splits sum.splits pyval.splits)

lemma show_unfold:
  "cls t \<noteq> RadioButtonInput \<Longrightarrow> cls t \<noteq> InlineMessage \<Longrightarrow> show rt t = BaseInput_show rt t"
  by (cases "cls t") (simp_all add: show_def)

lemma create_control_select:
  "create_control rt s = Inr s' \<Longrightarrow> select s' = select s"
  by (cases "cls s") (auto simp: create_defs Let_def split: if_splits option.splits)

lemma BaseInput_show_steps:
  assumes "\<not> visible t" "BaseInput_show rt t = Inr s'"
  shows "\<exists>s3 s4 w3. u_control s3 = Some w3 \<and> cls s3 = cls t \<and> u_value s3 = u_value t
           \<and> select s3 = select t
           \<and> set_value rt (u_value t) s3 = Inr s4
           \<and> s' = set_enabled (u_enabled t) (s4\<lparr>visible := True\<rparr>)"
proof -
  let ?t1 = "t\<lparr>container_html := html t @ shadow_label t\<rparr>"
  from assms obtain s2 where
    s2: "(if u_control ?t1 = None then create_control rt ?t1 else Inr ?t1) = Inr s2"
    by (auto simp: BaseInput_show_def Let_def split: sum.splits)
  have k2: "cls s2 = cls t" "u_value s2 = u_value t" "u_enabled s2 = u_enabled t"
    "select s2 = select t"
    using s2 create_control_keeps[of rt ?t1 s2] create_control_select[of rt ?t1 s2]
    by (auto split: if_splits)
  from assms s2 obtain w2 where w2: "u_control s2 = Some w2"
    by (auto simp: BaseInput_show_def Let_def split: option.splits)
  let ?s3 = "s2\<lparr>u_control := Some (appendTo (''#'' @ el_id s2) w2)\<rparr>"
  from assms s2 w2 obtain s4 where s4: "set_value rt (u_value ?s3) ?s3 = Inr s4"
    by (auto simp: BaseInput_show_def Let_def split: sum.splits)
  have s': "s' = set_enabled (u_enabled s4) (s4\<lparr>visible := True\<rparr>)"
    using assms s2 w2 s4 by (simp add: BaseInput_show_def Let_def)
  have k4: "u_enabled s4 = u_enabled t"
    using set_value_keeps[OF s4] k2 by simp
  have "u_control ?s3 = Some (appendTo (''#'' @ el_id s2) w2)" by simp
  moreover have "cls ?s3 = cls t" "u_value ?s3 = u_value t" "select ?s3 = select t"
    using k2 by simp_all
  moreover have "set_value rt (u_value t) ?s3 = Inr s4" using s4 k2 by simp
  moreover have "s' = set_enabled (u_enabled t) (s4\<lparr>visible := True\<rparr>)"
    using s' k4 by simp
  ultimately show ?thesis by blast
qed

lemma set_value_widget:
  assumes "set_value rt v s = Inr s'" and "u_control s = Some w"
  shows "\<exists>w'. u_control s' = Some w'
        \<and> (cls s \<in> {TextInput, MultiLineInput, NumberInput, DropdownInput}
              \<longrightarrow> js_get ''value'' w' = v)
        \<and> (cls s = CheckboxInput \<longrightarrow> js_get ''checked'' w' = v)
        \<and> (cls s = SignatureInput \<and> v \<noteq> PNone \<longrightarrow> js_get ''signature'' w' = v)
        \<and> (cls s \<in> {DateInput, DateTimeInput, TimeInput} \<and> v = PNone
              \<longrightarrow> js_get ''value'' w' = PNone)
        \<and> (cls s \<in> {DateTimeInput, TimeInput} \<longrightarrow>
              (\<forall>dt. v = PDateTime dt \<longrightarrow> js_get ''value'' w' = JSDate (py_timestamp rt dt * 1000)))
        \<and> (cls s = DateInput \<longrightarrow>
              (\<forall>d. v = PDate d \<longrightarrow>
                 js_get ''value'' w' =
                   JSDate (py_timestamp rt (DateTime (year d) (month d) (day d) 0 0 0 0) * 1000)))
        \<and> (cls s = LookupInput \<longrightarrow>
              (\<not> truthy v \<longrightarrow> js_get ''value'' w' = PNone)
              \<and> (truthy v \<and> select s = ''single''
                    \<longrightarrow> py_getitem v ''uid'' = Inr (js_get ''value'' w')))
        \<and> (cls s = FileUploadInput \<longrightarrow> u_value s' = v)"
  using assms
  by (cases "cls s")
     (auto simp: value_defs Let_def js_get_set_same
           split: if_splits option.splits sum.splits pyval.splits)

lemma set_enabled_widget:
  assumes "u_control s4 = Some w4"
  shows "\<exists>w. u_control (set_enabled e (s4\<lparr>visible := True\<rparr>)) = Some w
     \<and> visible (set_enabled e (s4\<lparr>visible := True\<rparr>))
     \<and> u_enabled (set_enabled e (s4\<lparr>visible := True\<rparr>)) = e
     \<and> u_value (set_enabled e (s4\<lparr>visible := True\<rparr>)) = u_value s4
     \<and> cls (set_enabled e (s4\<lparr>visible := True\<rparr>)) = cls s4
     \<and> (if cls s4 = CheckboxInput then js_get ''disabled'' w = PBool (\<not> truthy e)
         else js_get ''enabled'' w = e)
     \<and> js_get ''value'' w = js_get ''value'' w4
     \<and> js_get ''checked'' w = js_get ''checked'' w4
     \<and> js_get ''signature'' w = js_get ''signature'' w4"
  using assms
  by (cases "cls s4 = CheckboxInput")
     (simp_all add: set_enabled_def js_get_set_same js_get_set_other)

lemma radio_option_shown:
  "\<exists>w. opt_control (radio_check v (radio_append (radio_check v (radio_button s opt)))) = Some w
       \<and> (py_eq (opt_value opt) v \<longrightarrow> js_get ''checked'' w = PBool True)"
  by (simp add: radio_check_def radio_append_def radio_button_def ej_new_def appendTo_def)

lemma radio_option_value:
  "opt_value (radio_check v (radio_append (radio_check v (radio_button s opt)))) = opt_value opt"
  by (simp add: radio_check_def radio_append_def radio_button_def ej_new_def appendTo_def)

lemma RadioButtonInput_show_hidden:
  assumes "\<not> visible t"
  shows "u_control (RadioButtonInput_show t) = u_control t
     \<and> visible (RadioButtonInput_show t)
     \<and> cls (RadioButtonInput_show t) = cls t
     \<and> u_value (RadioButtonInput_show t) = u_value t
     \<and> u_enabled (RadioButtonInput_show t) = u_enabled t
     \<and> options (RadioButtonInput_show t) =
         map (\<lambda>opt. radio_check (u_value t) (radio_append (radio_check (u_value t)
                (radio_button (t\<lparr>container_html := html t\<rparr>) opt)))) (options t)"
  using assms
  by (simp add: RadioButtonInput_show_def RadioButtonInput_create_control_def
        RadioButtonInput_set_value_def Let_def)

lemma show_widget_classes:
  assumes nv: "\<not> visible t" and c: "cls t \<noteq> RadioButtonInput" "cls t \<noteq> InlineMessage"
    and sh: "show rt t = Inr s'"
  shows "\<exists>s3 s4 w3 w.
           u_control s3 = Some w3 \<and> cls s3 = cls t \<and> u_value s3 = u_value t
           \<and> set_value rt (u_value t) s3 = Inr s4
           \<and> s' = set_enabled (u_enabled t) (s4\<lparr>visible := True\<rparr>)
           \<and> u_control s' = Some w \<and> visible s' \<and> u_enabled s' = u_enabled t \<and> cls s' = cls t
           \<and> (if cls t = CheckboxInput
               then js_get ''disabled'' w = PBool (\<not> truthy (u_enabled t))
               else js_get ''enabled'' w = u_enabled t)
           \<and> (cls t \<in> {TextInput, MultiLineInput, NumberInput, DropdownInput}
                \<longrightarrow> js_get ''value'' w = u_value t)
           \<and> (cls t = CheckboxInput \<longrightarrow> js_get ''checked'' w = u_value t)
           \<and> (cls t = SignatureInput \<and> u_value t \<noteq> PNone \<longrightarrow> js_get ''signature'' w = u_value t)
           \<and> (cls t \<in> {DateInput, DateTimeInput, TimeInput} \<and> u_value t = PNone
                \<longrightarrow> js_get ''value'' w = PNone)
           \<and> (cls t \<in> {DateTimeInput, TimeInput} \<longrightarrow>
                (\<forall>dt. u_value t = PDateTime dt \<longrightarrow>
                   js_get ''value'' w = JSDate (py_timestamp rt dt * 1000)))
           \<and> (cls t = DateInput \<longrightarrow>
                (\<forall>d. u_value t = PDate d \<longrightarrow>
                   js_get ''value'' w =
                     JSDate (py_timestamp rt (DateTime (year d) (month d) (day d) 0 0 0 0) * 1000)))
           \<and> (cls t = LookupInput \<longrightarrow>
                (\<not> truthy (u_value t) \<longrightarrow> js_get ''value'' w = PNone)
                \<and> (truthy (u_value t) \<and> select t = ''single''
                      \<longrightarrow> py_getitem (u_value t) ''uid'' = Inr (js_get ''value'' w)))
           \<and> (cls t = FileUploadInput \<longrightarrow> u_value s' = u_value t)"
proof -
  have bs: "BaseInput_show rt t = Inr s'" using sh c by (simp add: show_unfold)
  from BaseInput_show_steps[OF nv bs] obtain s3 s4 w3 where
    s3: "u_control s3 = Some w3" "cls s3 = cls t" "u_value s3 = u_value t" "select s3 = select t"
    and s4: "set_value rt (u_value t) s3 = Inr s4"
    and s': "s' = set_enabled (u_enabled t) (s4\<lparr>visible := True\<rparr>)"
    by blast
  from set_value_widget[OF s4 s3(1)] obtain w4 where
    w4: "u_control s4 = Some w4"
    and v4: "cls s3 \<in> {TextInput, MultiLineInput, NumberInput, DropdownInput}
              \<longrightarrow> js_get ''value'' w4 = u_value t"
      "cls s3 = CheckboxInput \<longrightarrow> js_get ''checked'' w4 = u_value t"
      "cls s3 = SignatureInput \<and> u_value t \<noteq> PNone \<longrightarrow> js_get ''signature'' w4 = u_value t"
      "cls s3 \<in> {DateInput, DateTimeInput, TimeInput} \<and> u_value t = PNone
              \<longrightarrow> js_get ''value'' w4 = PNone"
      "cls s3 \<in> {DateTimeInput, TimeInput} \<longrightarrow>
              (\<forall>dt. u_value t = PDateTime dt \<longrightarrow> js_get ''value'' w4 = JSDate (py_timestamp rt dt * 1000))"
      "cls s3 = DateInput \<longrightarrow>
              (\<forall>d. u_value t = PDate d \<longrightarrow>
                 js_get ''value'' w4 =
                   JSDate (py_timestamp rt (DateTime (year d) (month d) (day d) 0 0 0 0) * 1000))"
      "cls s3 = LookupInput \<longrightarrow>
              (\<not> truthy (u_value t) \<longrightarrow> js_get ''value'' w4 = PNone)
              \<and> (truthy (u_value t) \<and> select s3 = ''single''
                    \<longrightarrow> py_getitem (u_value t) ''uid'' = Inr (js_get ''value'' w4))"
      "cls s3 = FileUploadInput \<longrightarrow> u_value s4 = u_value t"
    by blast
  have k4: "cls s4 = cls t" using set_value_keeps[OF s4] s3 by simp
  from set_enabled_widget[OF w4, of "u_enabled t"] obtain w where
    w: "u_control s' = Some w" "visible s'" "u_enabled s' = u_enabled t"
       "u_value s' = u_value s4" "cls s' = cls t"
       "if cls t = CheckboxInput then js_get ''disabled'' w = PBool (\<not> truthy (u_enabled t))
        else js_get ''enabled'' w = u_enabled t"
       "js_get ''value'' w = js_get ''value'' w4"
       "js_get ''checked'' w = js_get ''checked'' w4"
       "js_get ''signature'' w = js_get ''signature'' w4"
    unfolding s' k4 by blast
  show ?thesis
    apply (rule exI[of _ s3], rule exI[of _ s4], rule exI[of _ w3], rule exI[of _ w])
    using s3 s4 s' w v4 by simp
qed

lemma show_succeeds:
  "\<not> visible t \<Longrightarrow>
   cls t \<in> {TextInput, MultiLineInput, NumberInput, CheckboxInput, SignatureInput, FileUploadInput}
   \<Longrightarrow> \<exists>s'. show rt t = Inr s'"
  by (cases "u_control t") (auto simp: show_defs value_defs Let_def)

lemma radio_show_facts:
  assumes "\<not> visible t" "cls t = RadioButtonInput" "u_control t = None"
  shows "\<exists>s'. show rt t = Inr s' \<and> u_control s' = None \<and> visible s' \<and> cls s' = cls t
           \<and> u_value s' = u_value t \<and> u_enabled s' = u_enabled t
           \<and> length (options s') = length (options t)
           \<and> (\<forall>opt \<in> set (options s').
                 \<exists>w. opt_control opt = Some w
                   \<and> (py_eq (opt_value opt) (u_value t) \<longrightarrow> js_get ''checked'' w = PBool True))"
proof -
  let ?s = "RadioButtonInput_show t"
  let ?f = "\<lambda>opt. radio_check (u_value t) (radio_append (radio_check (u_value t)
                (radio_button (t\<lparr>container_html := html t\<rparr>) opt)))"
  note h = RadioButtonInput_show_hidden[OF assms(1)]
  have sh: "show rt t = Inr ?s" using assms(2) by (simp add: show_def)
  have o: "options ?s = map ?f (options t)" using h by simp
  have all: "\<forall>opt \<in> set (options ?s).
                 \<exists>w. opt_control opt = Some w
                   \<and> (py_eq (opt_value opt) (u_value t) \<longrightarrow> js_get ''checked'' w = PBool True)"
  proof
    fix opt assume "opt \<in> set (options ?s)"
    then obtain o0 where o0: "opt = ?f o0" unfolding o by auto
    from radio_option_shown[of "u_value t" "t\<lparr>container_html := html t\<rparr>" o0]
         radio_option_value[of "u_value t" "t\<lparr>container_html := html t\<rparr>" o0]
    show "\<exists>w. opt_control opt = Some w
                   \<and> (py_eq (opt_value opt) (u_value t) \<longrightarrow> js_get ''checked'' w = PBool True)"
      unfolding o0 by auto
  qed
  have l: "length (options ?s) = length (options t)" unfolding o by simp
  show ?thesis
    using sh h assms(3) l all by (intro exI[of _ ?s]) simp
qed

lemma inline_show_facts:
  assumes "\<not> visible t" "cls t = InlineMessage" "u_control t = None"
  shows "\<exists>s'. show rt t = Inr s' \<and> u_control s' = None \<and> visible s' \<and> cls s' = cls t
           \<and> u_enabled s' = u_enabled t \<and> el_html s' = Some (message t)"
  using assms by (simp add: show_def InlineMessage_show_def)

lemma radio_button_cong: "name s1 = name s2 \<Longrightarrow> radio_button s1 = radio_button s2"
  by (rule ext) (simp add: radio_button_def)

lemma radio_show_enabled_unused:
  assumes "cls t = RadioButtonInput" "show rt t = Inr s'"
  shows "show rt (t\<lparr>u_enabled := e\<rparr>) = Inr (s'\<lparr>u_enabled := e\<rparr>)"
proof -
  have r: "radio_button (t\<lparr>u_enabled := e, container_html := html t\<rparr>)
             = radio_button (t\<lparr>container_html := html t\<rparr>)"
    by (rule radio_button_cong) simp
  have "RadioButtonInput_show (t\<lparr>u_enabled := e\<rparr>) = (RadioButtonInput_show t)\<lparr>u_enabled := e\<rparr>"
    using r by (simp add: RadioButtonInput_show_def RadioButtonInput_create_control_def
        RadioButtonInput_set_value_def Let_def)
  then show ?thesis using assms by (auto simp: show_def)
qed

lemma inline_show_enabled_unused:
  assumes "cls t = InlineMessage" "show rt t = Inr s'"
  shows "show rt (t\<lparr>u_enabled := e\<rparr>) = Inr (s'\<lparr>u_enabled := e\<rparr>)"
  using assms by (auto simp: show_def InlineMessage_show_def)

lemma radio_input_facts:
  "\<not> visible radio_input" "cls radio_input = RadioButtonInput" "u_control radio_input = None"
  "u_enabled radio_input = PBool False" "destroy radio_input = radio_input"
  by (simp_all add: radio_input_def new_input_def destroy_def)

lemma inline_input_facts:
  "\<not> visible inline_input" "cls inline_input = InlineMessage" "u_control inline_input = None"
  "u_enabled inline_input = PBool True" "destroy inline_input = inline_input"
  by (simp_all add: inline_input_def new_input_def destroy_def)

lemma get_enabled_None: "u_control s = None \<Longrightarrow> get_enabled s = (PNone, s)"
  by (simp add: get_enabled_def)

lemma destroy_enabled:
  "destroy (s\<lparr>u_enabled := e\<rparr>) = (destroy s)\<lparr>u_enabled := e\<rparr>"
  by (simp add: destroy_def)

lemma hm_arith:
  fixes D h m sec :: int
  assumes "0 \<le> h" "h < 24" "0 \<le> m" "m < 60" "0 \<le> sec" "sec < 60"
  shows "((D * 86400 + h * 3600 + m * 60 + sec) mod 86400) div 3600 = h"
    and "(((D * 86400 + h * 3600 + m * 60 + sec) mod 86400) mod 3600) div 60 = m"
    and "(D * 86400 + h * 3600 + m * 60 + sec) mod 60 = sec"
proof -
  let ?r = "h * 3600 + m * 60 + sec"
  have r: "0 \<le> ?r" "?r < 86400" using assms by auto
  have "D * 86400 + h * 3600 + m * 60 + sec = ?r + D * 86400" by simp
  then have e: "(D * 86400 + h * 3600 + m * 60 + sec) mod 86400 = ?r"
    using r by (simp only: mod_mult_self1 mod_pos_pos_trivial)
  have q: "0 \<le> m * 60 + sec" "m * 60 + sec < 3600" using assms by auto
  have "?r = (m * 60 + sec) + h * 3600" by simp
  then have e2: "?r mod 3600 = m * 60 + sec"
    using q by (simp only: mod_mult_self1 mod_pos_pos_trivial)
  have "?r = (m * 60 + sec) + h * 3600" by simp
  then have d1: "?r div 3600 = h"
    using q by (simp only: div_mult_self1 div_pos_pos_trivial)
  have d2: "(m * 60 + sec) div 60 = m"
    using assms by simp
  have "D * 86400 + h * 3600 + m * 60 + sec = sec + (D * 1440 + h * 60 + m) * 60" by simp
  then have e3: "(D * 86400 + h * 3600 + m * 60 + sec) mod 60 = sec"
    using assms by (simp only: mod_mult_self1 mod_pos_pos_trivial)
  show "((D * 86400 + h * 3600 + m * 60 + sec) mod 86400) div 3600 = h"
    by (simp only: e d1)
  show "(((D * 86400 + h * 3600 + m * 60 + sec) mod 86400) mod 3600) div 60 = m"
    by (simp only: e e2 d2)
  show "(D * 86400 + h * 3600 + m * 60 + sec) mod 60 = sec"
    by (rule e3)
qed

lemma get_model_attribute_pos:
  "0 < d \<Longrightarrow> get_model_attribute d dm c a = get_model_attribute (Suc (d - 1)) dm c a"
  by simp

lemma model_delete_absent: "model_get db u = None \<Longrightarrow> model_delete u db = db"
  by (induction db) (auto simp: model_get_def model_delete_def split: if_splits)

lemma delete_rows_filter:
  "delete_rows rows db = filter (\<lambda>p. fst p \<notin> set (map (js_get ''uid'') rows)) db"
proof (induction rows arbitrary: db)
  case Nil
  then show ?case by simp
next
  case (Cons r rows)
  let ?u = "js_get ''uid'' r"
  have "delete_rows (r # rows) db = delete_rows rows (model_delete ?u db)"
    using model_delete_absent[of db ?u] by (cases "model_get db ?u") simp_all
  also have "\<dots> = filter (\<lambda>p. fst p \<notin> set (map (js_get ''uid'') rows)) (model_delete ?u db)"
    by (rule Cons.IH)
  also have "\<dots> = filter (\<lambda>p. fst p \<notin> set (map (js_get ''uid'') (r # rows))) db"
    by (auto simp: model_delete_def intro: filter_cong)
  finally show ?case .
qed

lemma map_of_filter_fst:
  "map_of (filter (\<lambda>p. fst p \<notin> S) db) u = (if u \<in> S then None else map_of db u)"
  by (induction db) auto

lemma grid_column_keys:
  "grid_column env m c = Inr gc \<Longrightarrow>
     py_getitem gc ''isPrimaryKey'' = Inl (KeyError ''isPrimaryKey'')
     \<and> py_getitem gc ''visible'' = Inl (KeyError ''visible'')"
  by (auto simp: grid_column_def bind_err_def split: sum.splits pyval.splits option.splits prod.splits)

lemma build_grid_columns_keys:
  "build_grid_columns env m cols = Inr gcs \<Longrightarrow> gc \<in> set gcs \<Longrightarrow>
     py_getitem gc ''isPrimaryKey'' = Inl (KeyError ''isPrimaryKey'')
     \<and> py_getitem gc ''visible'' = Inl (KeyError ''visible'')"
proof (induction cols arbitrary: gcs)
  case Nil
  then show ?case by simp
next
  case (Cons c cols)
  then show ?case
    by (auto simp: bind_err_def grid_column_keys split: sum.splits if_splits)
qed

lemma configure_grid_columns:
  assumes "configure_grid env title gm tb mname vc cols = Inr g"
  shows "model g = mname \<and> view_config g = vc \<and>
         (grid_columns g = uid_column # cols \<or> grid_columns g = checkbox_column # uid_column # cols)"
  using assms
  by (auto simp: configure_grid_def bind_err_def Let_def split: sum.splits)

lemma GridView_init_columns:
  assumes "GridView_init env title m vn vc gm tb = Inr g"
  shows "\<exists>vcols columns cols.
           py_getitem (view_config g) ''columns'' = Inr vcols \<and> py_iter vcols = Inr columns
           \<and> build_grid_columns env (model g) columns = Inr cols
           \<and> (grid_columns g = uid_column # cols \<or> grid_columns g = checkbox_column # uid_column # cols)"
proof -
  from assms obtain mname c vcols columns cols where
    v: "py_getitem c ''columns'' = Inr vcols" "py_iter vcols = Inr columns" and
    b: "build_grid_columns env mname columns = Inr cols" and
    k: "configure_grid env title gm tb mname c cols = Inr g"
    by (auto simp: GridView_init_def bind_err_def split: sum.splits prod.splits)
  from configure_grid_columns[OF k] b v show ?thesis by auto
qed


lemma order_grid_built:
  "case GridView_init order_env None (Some ''Order'') None None PNone PNone of
     Inl e \<Rightarrow> False | Inr g \<Rightarrow> length (grid_columns g) = 6"
  by code_simp

lemmas row_defs = row_a_def row_b_def row_c_def row_a_edited_def

subsection \<open>The form inputs\<close>

text \<open>
  Claim C1. On an input with no live widget, assigning \<^verbatim>\<open>value\<close> should store the
  value in the cache so that the next read returns it. The setter of \<^verbatim>\<open>BaseInput\<close>,
  which \<^verbatim>\<open>TextInput\<close> inherits, writes the widget only: without a widget the
  assignment changes nothing and the next read returns the old cached value. On the text
  input constructed with \<^verbatim>\<open>'draft'\<close>, assigning \<^verbatim>\<open>'abc'\<close> leaves the input as
  it was and the read gives \<^verbatim>\<open>'draft'\<close>.
\<close>

theorem unmounted_set_value_not_cached:
  "set_value rt v (s\<lparr>cls := TextInput, u_control := None\<rparr>) = Inr (s\<lparr>cls := TextInput, u_control := None\<rparr>)
   \<and> get_value rt (s\<lparr>cls := TextInput, u_control := None\<rparr>)
       = Inr (u_value s, s\<lparr>cls := TextInput, u_control := None\<rparr>)
   \<and> set_value rt0 (PStr ''abc'') text_input = Inr text_input
   \<and> get_value rt0 text_input = Inr (PStr ''draft'', text_input)"
  by (simp add: fixture_defs value_defs get_defs)

text \<open>
  Claim C3. \<^verbatim>\<open>hide()\<close> then \<^verbatim>\<open>show()\<close> should give back a visible input with
  the value it had. The shown text input is assigned \<^verbatim>\<open>'abc'\<close> and reads
  \<^verbatim>\<open>'abc'\<close>; after \<^verbatim>\<open>hide()\<close> and \<^verbatim>\<open>show()\<close> it is visible and reads
  \<^verbatim>\<open>'draft'\<close>, the stale cache that \<^verbatim>\<open>show()\<close> pushed into the widget.
\<close>

theorem hide_show_loses_set_value:
  "\<exists>s2 s3. show rt0 text_input = Inr text_shown
     \<and> set_value rt0 (PStr ''abc'') text_shown = Inr s2
     \<and> visible s2 \<and> map_sum fst fst (get_value rt0 s2) = Inr (PStr ''abc'')
     \<and> show rt0 (hide s2) = Inr s3
     \<and> visible s3 \<and> map_sum fst fst (get_value rt0 s3) = Inr (PStr ''draft'')"
  by (simp add: fixture_defs show_defs value_defs get_defs hide_def)

text \<open>
  Claim C6, as amended. \<^verbatim>\<open>destroy()\<close> drops the widget handle and is the identity
  on an input without one; it leaves \<^verbatim>\<open>visible\<close> as it is, so on a visible input a
  following \<^verbatim>\<open>show()\<close> does nothing. On an input that is not visible (its container
  element being in the document, as the model takes it to be), \<^verbatim>\<open>show()\<close> after
  \<^verbatim>\<open>destroy()\<close> goes by class.

  \<^item> Every class that uses the \<^verbatim>\<open>show\<close> of \<^verbatim>\<open>BaseInput\<close>, that is every class
  but the radio buttons and the inline message: a \<^verbatim>\<open>show()\<close> that succeeds has run
  the value setter of the class with the cached value on an input that holds a new
  widget, then marked the input visible and assigned the cached enabled flag. The input
  has a widget again, whose \<^verbatim>\<open>enabled\<close> is the cached flag (for the checkbox,
  \<^verbatim>\<open>disabled\<close> is its negation), and the widget holds the cached value: as
  \<^verbatim>\<open>value\<close> for the text, multi-line, number and dropdown inputs, as
  \<^verbatim>\<open>checked\<close> for the checkbox, as \<^verbatim>\<open>signature\<close> for a signature other than
  \<^verbatim>\<open>None\<close>, as the epoch timestamp in milliseconds for a date of the date input and
  a date-time of the date-time and time inputs (\<^verbatim>\<open>None\<close> for \<^verbatim>\<open>None\<close>), as
  the \<^verbatim>\<open>uid\<close> of the cached row for a single-select lookup (\<^verbatim>\<open>None\<close> for an
  empty value); the upload input keeps it in the cache. \<^verbatim>\<open>show()\<close> succeeds for
  the text, multi-line, number, checkbox, signature and upload inputs.

  \<^item> The radio buttons never hold a widget handle. \<^verbatim>\<open>show()\<close> succeeds, leaves
  the handle \<^verbatim>\<open>None\<close>, gives every option a widget and checks the options whose
  value equals the cached value, and marks the input visible; the cached enabled flag
  is carried along and not used.

  \<^item> The inline message has no widget. \<^verbatim>\<open>show()\<close> succeeds, leaves the handle
  \<^verbatim>\<open>None\<close>, writes the cached message into its element and marks the input
  visible; the cached enabled flag is carried along and not used.
\<close>

theorem destroy_then_show:
  "u_control (destroy s) = None
   \<and> (u_control s = None \<longrightarrow> destroy s = s)
   \<and> visible (destroy s) = visible s
   \<and> (visible s \<longrightarrow> show rt (destroy s) = Inr (destroy s))
   \<and> (\<not> visible s \<and> cls s \<in> {TextInput, MultiLineInput, NumberInput, CheckboxInput,
          SignatureInput, FileUploadInput} \<longrightarrow> (\<exists>s'. show rt (destroy s) = Inr s'))
   \<and> (\<not> visible s \<and> cls s \<noteq> RadioButtonInput \<and> cls s \<noteq> InlineMessage
        \<and> show rt (destroy s) = Inr s' \<longrightarrow>
        (\<exists>s3 s4 w3 w.
           u_control s3 = Some w3 \<and> cls s3 = cls s \<and> u_value s3 = u_value s
           \<and> set_value rt (u_value s) s3 = Inr s4
           \<and> s' = set_enabled (u_enabled s) (s4\<lparr>visible := True\<rparr>)
           \<and> u_control s' = Some w \<and> visible s' \<and> u_enabled s' = u_enabled s \<and> cls s' = cls s
           \<and> (if cls s = CheckboxInput
               then js_get ''disabled'' w = PBool (\<not> truthy (u_enabled s))
               else js_get ''enabled'' w = u_enabled s)
           \<and> (cls s \<in> {TextInput, MultiLineInput, NumberInput, DropdownInput}
                \<longrightarrow> js_get ''value'' w = u_value s)
           \<and> (cls s = CheckboxInput \<longrightarrow> js_get ''checked'' w = u_value s)
           \<and> (cls s = SignatureInput \<and> u_value s \<noteq> PNone \<longrightarrow> js_get ''signature'' w = u_value s)
           \<and> (cls s \<in> {DateInput, DateTimeInput, TimeInput} \<and> u_value s = PNone
                \<longrightarrow> js_get ''value'' w = PNone)
           \<and> (cls s \<in> {DateTimeInput, TimeInput} \<longrightarrow>
                (\<forall>dt. u_value s = PDateTime dt \<longrightarrow>
                   js_get ''value'' w = JSDate (py_timestamp rt dt * 1000)))
           \<and> (cls s = DateInput \<longrightarrow>
                (\<forall>d. u_value s = PDate d \<longrightarrow>
                   js_get ''value'' w =
                     JSDate (py_timestamp rt (DateTime (year d) (month d) (day d) 0 0 0 0) * 1000)))
           \<and> (cls s = LookupInput \<longrightarrow>
                (\<not> truthy (u_value s) \<longrightarrow> js_get ''value'' w = PNone)
                \<and> (truthy (u_value s) \<and> select s = ''single''
                      \<longrightarrow> py_getitem (u_value s) ''uid'' = Inr (js_get ''value'' w)))
           \<and> (cls s = FileUploadInput \<longrightarrow> u_value s' = u_value s)))
   \<and> (\<not> visible s \<and> cls s = RadioButtonInput \<longrightarrow>
        (\<exists>s'. show rt (destroy s) = Inr s' \<and> u_control s' = None \<and> visible s'
           \<and> cls s' = cls s \<and> u_value s' = u_value s \<and> u_enabled s' = u_enabled s
           \<and> length (options s') = length (options s)
           \<and> (\<forall>opt \<in> set (options s').
                 \<exists>w. opt_control opt = Some w
                   \<and> (py_eq (opt_value opt) (u_value s) \<longrightarrow> js_get ''checked'' w = PBool True))
           \<and> (\<forall>e. show rt (destroy (s\<lparr>u_enabled := e\<rparr>)) = Inr (s'\<lparr>u_enabled := e\<rparr>))))
   \<and> (\<not> visible s \<and> cls s = InlineMessage \<longrightarrow>
        (\<exists>s'. show rt (destroy s) = Inr s' \<and> u_control s' = None \<and> visible s'
           \<and> cls s' = cls s \<and> u_enabled s' = u_enabled s \<and> el_html s' = Some (message s)
           \<and> (\<forall>e. show rt (destroy (s\<lparr>u_enabled := e\<rparr>)) = Inr (s'\<lparr>u_enabled := e\<rparr>))))"
proof -
  let ?d = "destroy s"
  have a: "u_control ?d = None" and c: "visible ?d = visible s"
    and k: "cls ?d = cls s" "u_value ?d = u_value s" "u_enabled ?d = u_enabled s"
       "select ?d = select s" "options ?d = options s" "message ?d = message s"
    by (simp_all add: destroy_def)
  have b: "u_control s = None \<longrightarrow> ?d = s" by (simp add: destroy_def)
  have d: "visible s \<longrightarrow> show rt ?d = Inr ?d"
    using c by (simp add: show_def BaseInput_show_def RadioButtonInput_show_def
        InlineMessage_show_def split: input_class.splits)
  have e: "\<not> visible s \<and> cls s \<in> {TextInput, MultiLineInput, NumberInput, CheckboxInput,
          SignatureInput, FileUploadInput} \<longrightarrow> (\<exists>s'. show rt ?d = Inr s')"
    using show_succeeds[of ?d rt] c k by simp
  have f: "\<not> visible s \<and> cls s \<noteq> RadioButtonInput \<and> cls s \<noteq> InlineMessage
        \<and> show rt ?d = Inr s' \<longrightarrow>
        (\<exists>s3 s4 w3 w.
           u_control s3 = Some w3 \<and> cls s3 = cls s \<and> u_value s3 = u_value s
           \<and> set_value rt (u_value s) s3 = Inr s4
           \<and> s' = set_enabled (u_enabled s) (s4\<lparr>visible := True\<rparr>)
           \<and> u_control s' = Some w \<and> visible s' \<and> u_enabled s' = u_enabled s \<and> cls s' = cls s
           \<and> (if cls s = CheckboxInput
               then js_get ''disabled'' w = PBool (\<not> truthy (u_enabled s))
               else js_get ''enabled'' w = u_enabled s)
           \<and> (cls s \<in> {TextInput, MultiLineInput, NumberInput, DropdownInput}
                \<longrightarrow> js_get ''value'' w = u_value s)
           \<and> (cls s = CheckboxInput \<longrightarrow> js_get ''checked'' w = u_value s)
           \<and> (cls s = SignatureInput \<and> u_value s \<noteq> PNone \<longrightarrow> js_get ''signature'' w = u_value s)
           \<and> (cls s \<in> {DateInput, DateTimeInput, TimeInput} \<and> u_value s = PNone
                \<longrightarrow> js_get ''value'' w = PNone)
           \<and> (cls s \<in> {DateTimeInput, TimeInput} \<longrightarrow>
                (\<forall>dt. u_value s = PDateTime dt \<longrightarrow>
                   js_get ''value'' w = JSDate (py_timestamp rt dt * 1000)))
           \<and> (cls s = DateInput \<longrightarrow>
                (\<forall>d. u_value s = PDate d \<longrightarrow>
                   js_get ''value'' w =
                     JSDate (py_timestamp rt (DateTime (year d) (month d) (day d) 0 0 0 0) * 1000)))
           \<and> (cls s = LookupInput \<longrightarrow>
                (\<not> truthy (u_value s) \<longrightarrow> js_get ''value'' w = PNone)
                \<and> (truthy (u_value s) \<and> select s = ''single''
                      \<longrightarrow> py_getitem (u_value s) ''uid'' = Inr (js_get ''value'' w)))
           \<and> (cls s = FileUploadInput \<longrightarrow> u_value s' = u_value s))"
  proof (intro impI, elim conjE)
    assume h: "\<not> visible s" "cls s \<noteq> RadioButtonInput" "cls s \<noteq> InlineMessage"
      "show rt ?d = Inr s'"
    have nv: "\<not> visible ?d" using h c by simp
    have c1: "cls ?d \<noteq> RadioButtonInput" "cls ?d \<noteq> InlineMessage" using h k by simp_all
    from show_widget_classes[OF nv c1 h(4), unfolded k]
    show "\<exists>s3 s4 w3 w.
           u_control s3 = Some w3 \<and> cls s3 = cls s \<and> u_value s3 = u_value s
           \<and> set_value rt (u_value s) s3 = Inr s4
           \<and> s' = set_enabled (u_enabled s) (s4\<lparr>visible := True\<rparr>)
           \<and> u_control s' = Some w \<and> visible s' \<and> u_enabled s' = u_enabled s \<and> cls s' = cls s
           \<and> (if cls s = CheckboxInput
               then js_get ''disabled'' w = PBool (\<not> truthy (u_enabled s))
               else js_get ''enabled'' w = u_enabled s)
           \<and> (cls s \<in> {TextInput, MultiLineInput, NumberInput, DropdownInput}
                \<longrightarrow> js_get ''value'' w = u_value s)
           \<and> (cls s = CheckboxInput \<longrightarrow> js_get ''checked'' w = u_value s)
           \<and> (cls s = SignatureInput \<and> u_value s \<noteq> PNone \<longrightarrow> js_get ''signature'' w = u_value s)
           \<and> (cls s \<in> {DateInput, DateTimeInput, TimeInput} \<and> u_value s = PNone
                \<longrightarrow> js_get ''value'' w = PNone)
           \<and> (cls s \<in> {DateTimeInput, TimeInput} \<longrightarrow>
                (\<forall>dt. u_value s = PDateTime dt \<longrightarrow>
                   js_get ''value'' w = JSDate (py_timestamp rt dt * 1000)))
           \<and> (cls s = DateInput \<longrightarrow>
                (\<forall>d. u_value s = PDate d \<longrightarrow>
                   js_get ''value'' w =
                     JSDate (py_timestamp rt (DateTime (year d) (month d) (day d) 0 0 0 0) * 1000)))
           \<and> (cls s = LookupInput \<longrightarrow>
                (\<not> truthy (u_value s) \<longrightarrow> js_get ''value'' w = PNone)
                \<and> (truthy (u_value s) \<and> select s = ''single''
                      \<longrightarrow> py_getitem (u_value s) ''uid'' = Inr (js_get ''value'' w)))
           \<and> (cls s = FileUploadInput \<longrightarrow> u_value s' = u_value s)" .
  qed
  have g: "\<not> visible s \<and> cls s = RadioButtonInput \<longrightarrow>
        (\<exists>s'. show rt ?d = Inr s' \<and> u_control s' = None \<and> visible s'
           \<and> cls s' = cls s \<and> u_value s' = u_value s \<and> u_enabled s' = u_enabled s
           \<and> length (options s') = length (options s)
           \<and> (\<forall>opt \<in> set (options s').
                 \<exists>w. opt_control opt = Some w
                   \<and> (py_eq (opt_value opt) (u_value s) \<longrightarrow> js_get ''checked'' w = PBool True))
           \<and> (\<forall>e. show rt (destroy (s\<lparr>u_enabled := e\<rparr>)) = Inr (s'\<lparr>u_enabled := e\<rparr>)))"
  proof (intro impI, elim conjE)
    assume h: "\<not> visible s" "cls s = RadioButtonInput"
    have nv: "\<not> visible ?d" using h c by simp
    have c1: "cls ?d = RadioButtonInput" using h k by simp
    from radio_show_facts[OF nv c1 a, of rt, unfolded k] obtain s1 where
      s1: "show rt ?d = Inr s1"
      and f1: "u_control s1 = None" "visible s1" "cls s1 = cls s" "u_value s1 = u_value s"
        "u_enabled s1 = u_enabled s" "length (options s1) = length (options s)"
        "\<forall>opt \<in> set (options s1).
                 \<exists>w. opt_control opt = Some w
                   \<and> (py_eq (opt_value opt) (u_value s) \<longrightarrow> js_get ''checked'' w = PBool True)"
      by blast
    have u: "\<forall>e. show rt (destroy (s\<lparr>u_enabled := e\<rparr>)) = Inr (s1\<lparr>u_enabled := e\<rparr>)"
      using radio_show_enabled_unused[OF c1 s1] by (simp add: destroy_enabled)
    show "(\<exists>s1'. show rt ?d = Inr s1' \<and> u_control s1' = None \<and> visible s1'
           \<and> cls s1' = cls s \<and> u_value s1' = u_value s \<and> u_enabled s1' = u_enabled s
           \<and> length (options s1') = length (options s)
           \<and> (\<forall>opt \<in> set (options s1').
                 \<exists>w. opt_control opt = Some w
                   \<and> (py_eq (opt_value opt) (u_value s) \<longrightarrow> js_get ''checked'' w = PBool True))
           \<and> (\<forall>e. show rt (destroy (s\<lparr>u_enabled := e\<rparr>)) = Inr (s1'\<lparr>u_enabled := e\<rparr>)))"
      using s1 f1 u by (intro exI[of _ s1] conjI)
  qed
  have i: "\<not> visible s \<and> cls s = InlineMessage \<longrightarrow>
        (\<exists>s'. show rt ?d = Inr s' \<and> u_control s' = None \<and> visible s'
           \<and> cls s' = cls s \<and> u_enabled s' = u_enabled s \<and> el_html s' = Some (message s)
           \<and> (\<forall>e. show rt (destroy (s\<lparr>u_enabled := e\<rparr>)) = Inr (s'\<lparr>u_enabled := e\<rparr>)))"
  proof (intro impI, elim conjE)
    assume h: "\<not> visible s" "cls s = InlineMessage"
    have nv: "\<not> visible ?d" using h c by simp
    have c1: "cls ?d = InlineMessage" using h k by simp
    from inline_show_facts[OF nv c1 a, of rt, unfolded k] obtain s1 where
      s1: "show rt ?d = Inr s1"
      and f1: "u_control s1 = None" "visible s1" "cls s1 = cls s"
        "u_enabled s1 = u_enabled s" "el_html s1 = Some (message s)"
      by blast
    have u: "\<forall>e. show rt (destroy (s\<lparr>u_enabled := e\<rparr>)) = Inr (s1\<lparr>u_enabled := e\<rparr>)"
      using inline_show_enabled_unused[OF c1 s1] by (simp add: destroy_enabled)
    show "(\<exists>s1'. show rt ?d = Inr s1' \<and> u_control s1' = None \<and> visible s1'
           \<and> cls s1' = cls s \<and> u_enabled s1' = u_enabled s \<and> el_html s1' = Some (message s)
           \<and> (\<forall>e. show rt (destroy (s\<lparr>u_enabled := e\<rparr>)) = Inr (s1'\<lparr>u_enabled := e\<rparr>)))"
      using s1 f1 u by (intro exI[of _ s1] conjI)
  qed
  from a b c d e f g i show ?thesis by (intro conjI)
qed

text \<open>The amended claim C6 at the text input that was shown, hidden and destroyed, at
  the same input destroyed while visible, at the group of two radio buttons and at the
  inline message.\<close>

theorem destroy_then_show_witness:
  "u_control (hide text_shown) \<noteq> None \<and> \<not> visible (hide text_shown)
   \<and> u_control (destroy (hide text_shown)) = None
   \<and> (\<exists>s' w. show rt0 (destroy (hide text_shown)) = Inr s' \<and> u_control s' = Some w
          \<and> visible s' \<and> js_get ''enabled'' w = PBool True \<and> js_get ''value'' w = PStr ''draft'')
   \<and> (\<exists>s'. show rt0 (destroy radio_input) = Inr s' \<and> visible s' \<and> length (options s') = 2)
   \<and> (\<exists>s'. show rt0 (destroy inline_input) = Inr s' \<and> visible s'
          \<and> el_html s' = Some (PStr ''saved''))"
proof -
  have sh: "show rt0 (destroy (hide text_shown)) = Inr text_shown"
    by (simp add: fixture_defs show_defs value_defs hide_def destroy_def)
  have a: "u_control (hide text_shown) \<noteq> None \<and> \<not> visible (hide text_shown)
   \<and> u_control (destroy (hide text_shown)) = None
   \<and> (\<exists>s' w. show rt0 (destroy (hide text_shown)) = Inr s' \<and> u_control s' = Some w
          \<and> visible s' \<and> js_get ''enabled'' w = PBool True \<and> js_get ''value'' w = PStr ''draft'')"
    using destroy_then_show[of "hide text_shown" rt0 text_shown] sh
    by (simp add: fixture_defs hide_def)
  have b: "\<exists>s'. show rt0 (destroy radio_input) = Inr s' \<and> visible s' \<and> length (options s') = 2"
    using destroy_then_show[of radio_input rt0] radio_input_facts
    by (auto simp: radio_input_def)
  have c: "\<exists>s'. show rt0 (destroy inline_input) = Inr s' \<and> visible s'
          \<and> el_html s' = Some (PStr ''saved'')"
    using destroy_then_show[of inline_input rt0] inline_input_facts
    by (auto simp: inline_input_def)
  from a b c show ?thesis by blast
qed

text \<open>Claim C6 as stated fails in three ways. The shown text input, destroyed while
  visible, is not given a widget by \<^verbatim>\<open>show()\<close>. The radio buttons constructed
  with \<^verbatim>\<open>enabled=False\<close> are visible after \<^verbatim>\<open>destroy()\<close> and
  \<^verbatim>\<open>show()\<close> with no widget handle, and a read of \<^verbatim>\<open>enabled\<close> gives
  \<^verbatim>\<open>None\<close>. The inline message is visible after \<^verbatim>\<open>destroy()\<close> and
  \<^verbatim>\<open>show()\<close> with no widget handle.\<close>

theorem destroy_then_show_counterexample:
  "visible text_shown \<and> u_control text_shown \<noteq> None
   \<and> show rt0 (destroy text_shown) = Inr (destroy text_shown)
   \<and> u_control (destroy text_shown) = None
   \<and> (\<exists>s'. show rt0 (destroy radio_input) = Inr s' \<and> visible s' \<and> u_control s' = None
         \<and> u_enabled s' = PBool False \<and> get_enabled s' = (PNone, s'))
   \<and> (\<exists>s'. show rt0 (destroy inline_input) = Inr s' \<and> visible s' \<and> u_control s' = None)"
proof -
  have a: "visible text_shown \<and> u_control text_shown \<noteq> None
   \<and> show rt0 (destroy text_shown) = Inr (destroy text_shown)
   \<and> u_control (destroy text_shown) = None"
    by (simp add: fixture_defs show_defs destroy_def)
  from radio_show_facts[OF radio_input_facts(1-3), of rt0] obtain s1 where
    s1: "show rt0 radio_input = Inr s1" "u_control s1 = None" "visible s1"
        "u_enabled s1 = u_enabled radio_input"
    by blast
  have b: "\<exists>s'. show rt0 (destroy radio_input) = Inr s' \<and> visible s' \<and> u_control s' = None
         \<and> u_enabled s' = PBool False \<and> get_enabled s' = (PNone, s')"
    using s1 radio_input_facts(4,5) get_enabled_None[OF s1(2)] by auto
  from inline_show_facts[OF inline_input_facts(1-3), of rt0] obtain s2 where
    s2: "show rt0 inline_input = Inr s2" "u_control s2 = None" "visible s2"
    by blast
  have c: "\<exists>s'. show rt0 (destroy inline_input) = Inr s' \<and> visible s' \<and> u_control s' = None"
    using s2 inline_input_facts(5) by auto
  from a b c show ?thesis by blast
qed

text \<open>
  Claim C7. The \<^verbatim>\<open>enabled\<close> getter of a mounted checkbox should return the negation
  of the widget's \<^verbatim>\<open>disabled\<close> flag. The checkbox constructed with
  \<^verbatim>\<open>enabled=False\<close> is shown: its widget has \<^verbatim>\<open>disabled\<close> true, and the getter,
  which reads \<^verbatim>\<open>disbled\<close>, answers \<^verbatim>\<open>True\<close> and caches it.
\<close>

theorem checkbox_enabled_reads_disbled:
  "\<exists>s1 w. show rt0 checkbox_input = Inr s1 \<and> u_control s1 = Some w
      \<and> js_get ''disabled'' w = PBool True
      \<and> get_enabled s1 = (PBool True, s1\<lparr>u_enabled := PBool True\<rparr>)"
  by (simp add: fixture_defs show_defs value_defs get_enabled_def Let_def)

text \<open>
  Claim C8, as amended. On a mounted time input, assigning a date-time whose time of
  day is valid caches the value as it is and gives the widget the timestamp of its
  whole seconds, seconds and date included; the next read returns 1970-01-01 with the
  hour and the minute of the value and zero seconds, and caches that. Seconds are
  dropped on the read path only.
\<close>

theorem TimeInput_seconds_dropped_on_read_only:
  assumes "cls s = TimeInput" and "u_control s = Some w"
    and "0 \<le> dt_hour dt" "dt_hour dt < 24" "0 \<le> dt_minute dt" "dt_minute dt < 60"
        "0 \<le> dt_second dt" "dt_second dt < 60"
  shows "\<exists>s1 w1. set_value rt (PDateTime dt) s = Inr s1
           \<and> u_value s1 = PDateTime dt
           \<and> u_control s1 = Some w1
           \<and> js_get ''value'' w1 = JSDate (py_timestamp rt dt * 1000)
           \<and> (py_timestamp rt dt + tz rt) mod 60 = dt_second dt
           \<and> get_value rt s1 =
               Inr (PDateTime (DateTime 1970 1 1 (dt_hour dt) (dt_minute dt) 0 0),
                    s1\<lparr>u_value := PDateTime (DateTime 1970 1 1 (dt_hour dt) (dt_minute dt) 0 0)\<rparr>)"
proof -
  let ?ts = "py_timestamp rt dt"
  let ?D = "days_from_civil (dt_year dt) (dt_month dt) (dt_day dt)"
  let ?s1 = "s\<lparr>u_value := PDateTime dt, u_control := Some (js_set ''value'' (JSDate (?ts * 1000)) w)\<rparr>"
  have loc: "?ts + tz rt = ?D * 86400 + dt_hour dt * 3600 + dt_minute dt * 60 + dt_second dt"
    by (simp add: py_timestamp_def)
  have st: "set_value rt (PDateTime dt) s = Inr ?s1"
    using assms(1,2) by (simp add: value_defs)
  have hh: "getHours rt (?ts * 1000) = dt_hour dt"
    using hm_arith(1)[OF assms(3-8), of ?D] by (simp add: getHours_def loc)
  have mm: "getMinutes rt (?ts * 1000) = dt_minute dt"
    using hm_arith(2)[OF assms(3-8), of ?D] by (simp add: getMinutes_def loc)
  have ss: "(?ts + tz rt) mod 60 = dt_second dt"
    using hm_arith(3)[OF assms(3-8), of ?D] by (simp only: loc)
  have gt: "get_value rt ?s1 =
      Inr (PDateTime (DateTime 1970 1 1 (dt_hour dt) (dt_minute dt) 0 0),
           ?s1\<lparr>u_value := PDateTime (DateTime 1970 1 1 (dt_hour dt) (dt_minute dt) 0 0)\<rparr>)"
    using assms(1) hh mm
    by (simp add: get_value_def TimeInput_get_value_def js_get_set_same Let_def)
  show ?thesis
    using st gt ss by (simp add: js_get_set_same)
qed

text \<open>The amended claim C8 at 2024-03-15 10:30:45 on the shown time input.\<close>

theorem TimeInput_seconds_dropped_on_read_only_witness:
  "\<exists>s1 w1. set_value rt0 (PDateTime (DateTime 2024 3 15 10 30 45 0)) time_shown = Inr s1
      \<and> u_control s1 = Some w1
      \<and> js_get ''value'' w1 = JSDate 1710498645000
      \<and> get_value rt0 s1 =
           Inr (PDateTime (DateTime 1970 1 1 10 30 0 0),
                s1\<lparr>u_value := PDateTime (DateTime 1970 1 1 10 30 0 0)\<rparr>)"
proof -
  have a: "cls time_shown = TimeInput"
    by (simp add: fixture_defs time_shown_def)
  have b: "u_control time_shown = Some (the (u_control time_shown))"
    by (simp add: time_shown_def)
  have ts: "py_timestamp rt0 (DateTime 2024 3 15 10 30 45 0) * 1000 = 1710498645000"
    by (simp add: py_timestamp_def days_from_civil_def rt0_def)
  show ?thesis
    using TimeInput_seconds_dropped_on_read_only
            [OF a b, of "DateTime 2024 3 15 10 30 45 0" rt0]
    by (auto simp: ts)
qed

text \<open>Claim C8 as stated fails on the write path: the widget's timestamp keeps the 45
  seconds, and the cache keeps the date and the seconds.\<close>

theorem TimeInput_write_keeps_seconds_counterexample:
  "\<exists>s1 w. set_value rt0 (PDateTime (DateTime 2024 3 15 10 30 45 0)) time_shown = Inr s1
     \<and> u_value s1 = PDateTime (DateTime 2024 3 15 10 30 45 0)
     \<and> u_control s1 = Some w
     \<and> js_get ''value'' w = JSDate 1710498645000
     \<and> (1710498645000 :: int) mod 60000 = 45000"
  by (simp add: fixture_defs time_shown_def value_defs py_timestamp_def days_from_civil_def)

text \<open>
  Claim C10, as amended. An input of any class that has no live widget answers a read
  of \<^verbatim>\<open>enabled\<close> with \<^verbatim>\<open>None\<close>, whatever flag is cached in
  \<^verbatim>\<open>_enabled\<close>, and the read changes nothing. For every class but the checkbox,
  the radio buttons and the inline message, once a \<^verbatim>\<open>show()\<close> of the input that
  was not visible has succeeded, the read answers the cached flag; that
  \<^verbatim>\<open>show()\<close> succeeds for the text, multi-line, number, signature and upload
  inputs (the container element being in the document, as the model takes it to be).
  The radio buttons and the inline message never hold a widget handle: without one
  before \<^verbatim>\<open>show()\<close> they are without one after it, and the read still answers
  \<^verbatim>\<open>None\<close>.
\<close>

theorem enabled_None_until_shown:
  "(u_control s = None \<longrightarrow> get_enabled s = (PNone, s))
   \<and> (\<not> visible s \<and> cls s \<in> {TextInput, MultiLineInput, NumberInput, SignatureInput,
          FileUploadInput} \<longrightarrow> (\<exists>s'. show rt s = Inr s'))
   \<and> (\<not> visible s \<and> cls s \<notin> {CheckboxInput, RadioButtonInput, InlineMessage}
        \<and> show rt s = Inr s' \<longrightarrow> get_enabled s' = (u_enabled s, s'))
   \<and> (cls s \<in> {RadioButtonInput, InlineMessage} \<and> u_control s = None \<and> show rt s = Inr s'
        \<longrightarrow> get_enabled s' = (PNone, s'))"
proof -
  have a: "u_control s = None \<longrightarrow> get_enabled s = (PNone, s)"
    by (simp add: get_enabled_def)
  have b: "\<not> visible s \<and> cls s \<in> {TextInput, MultiLineInput, NumberInput, SignatureInput,
          FileUploadInput} \<longrightarrow> (\<exists>s'. show rt s = Inr s')"
    using show_succeeds[of s rt] by auto
  have c: "\<not> visible s \<and> cls s \<notin> {CheckboxInput, RadioButtonInput, InlineMessage}
        \<and> show rt s = Inr s' \<longrightarrow> get_enabled s' = (u_enabled s, s')"
  proof (intro impI, elim conjE)
    assume h: "\<not> visible s" "cls s \<notin> {CheckboxInput, RadioButtonInput, InlineMessage}"
      "show rt s = Inr s'"
    have c1: "cls s \<noteq> RadioButtonInput" "cls s \<noteq> InlineMessage" "cls s \<noteq> CheckboxInput"
      using h(2) by simp_all
    have bs: "BaseInput_show rt s = Inr s'" using h(3) c1 by (simp add: show_unfold)
    from BaseInput_show_steps[OF h(1) bs] obtain s3 s4 w3 where
      s3: "u_control s3 = Some w3" "cls s3 = cls s"
      and s4: "set_value rt (u_value s) s3 = Inr s4"
      and s': "s' = set_enabled (u_enabled s) (s4\<lparr>visible := True\<rparr>)"
      by blast
    have k4: "cls s4 = cls s" "u_control s4 \<noteq> None"
      using set_value_keeps[OF s4] s3 by simp_all
    then obtain w4 where w4: "u_control s4 = Some w4" by (cases "u_control s4") simp_all
    have e: "s' = s4\<lparr>visible := True, u_enabled := u_enabled s,
                      u_control := Some (js_set ''enabled'' (u_enabled s) w4)\<rparr>"
      unfolding s' using w4 k4(1) c1(3) by (simp add: set_enabled_def)
    show "get_enabled s' = (u_enabled s, s')"
      unfolding e using k4(1) c1(3) by (simp add: get_enabled_def js_get_set_same Let_def)
  qed
  have d: "cls s \<in> {RadioButtonInput, InlineMessage} \<and> u_control s = None \<and> show rt s = Inr s'
        \<longrightarrow> get_enabled s' = (PNone, s')"
  proof (intro impI, elim conjE)
    assume h: "cls s \<in> {RadioButtonInput, InlineMessage}" "u_control s = None" "show rt s = Inr s'"
    have "u_control s' = None"
    proof (cases "visible s")
      case True
      have "show rt s = Inr s"
        using h(1) True by (auto simp: show_def RadioButtonInput_show_def InlineMessage_show_def)
      then have "s' = s" using h(3) by simp
      then show ?thesis using h(2) by simp
    next
      case False
      show ?thesis
      proof (cases "cls s = RadioButtonInput")
        case True
        from radio_show_facts[OF False True h(2), of rt] obtain s1 where
          "show rt s = Inr s1" "u_control s1 = None" by blast
        then show ?thesis using h(3) by simp
      next
        case F: False
        then have i: "cls s = InlineMessage" using h(1) by simp
        from inline_show_facts[OF False i h(2), of rt] obtain s1 where
          "show rt s = Inr s1" "u_control s1 = None" by blast
        then show ?thesis using h(3) by simp
      qed
    qed
    then show "get_enabled s' = (PNone, s')" by (simp add: get_enabled_def)
  qed
  from a b c d show ?thesis by (intro conjI)
qed

text \<open>The amended claim C10 at the text input constructed with \<^verbatim>\<open>enabled=True\<close>,
  at the checkbox constructed with \<^verbatim>\<open>enabled=False\<close>, both before any
  \<^verbatim>\<open>show()\<close>, at the text input after \<^verbatim>\<open>show()\<close>, and at the radio buttons
  after \<^verbatim>\<open>show()\<close>.\<close>

theorem enabled_None_until_shown_witness:
  "get_enabled text_input = (PNone, text_input) \<and> u_enabled text_input = PBool True
   \<and> get_enabled checkbox_input = (PNone, checkbox_input) \<and> u_enabled checkbox_input = PBool False
   \<and> (\<exists>s'. show rt0 text_input = Inr s' \<and> get_enabled s' = (PBool True, s'))
   \<and> (\<exists>s'. show rt0 radio_input = Inr s' \<and> get_enabled s' = (PNone, s'))"
proof -
  note t = enabled_None_until_shown[of text_input rt0 text_shown]
  have a: "get_enabled text_input = (PNone, text_input) \<and> u_enabled text_input = PBool True"
    using t by (simp add: fixture_defs)
  have a': "get_enabled checkbox_input = (PNone, checkbox_input)
      \<and> u_enabled checkbox_input = PBool False"
    using enabled_None_until_shown[of checkbox_input] by (simp add: fixture_defs)
  have b: "\<exists>s'. show rt0 text_input = Inr s' \<and> get_enabled s' = (PBool True, s')"
    using t text_show by (simp add: fixture_defs)
  from radio_show_facts[OF radio_input_facts(1-3), of rt0] obtain s1 where
    s1: "show rt0 radio_input = Inr s1" by blast
  have c: "\<exists>s'. show rt0 radio_input = Inr s' \<and> get_enabled s' = (PNone, s')"
    using enabled_None_until_shown[of radio_input rt0 s1] s1 radio_input_facts by auto
  from a a' b c show ?thesis by blast
qed

text \<open>Claim C10 as stated fails: after \<^verbatim>\<open>show()\<close> the radio buttons constructed
  with \<^verbatim>\<open>enabled=False\<close> and the inline message constructed with
  \<^verbatim>\<open>enabled=True\<close> are visible, and a read of \<^verbatim>\<open>enabled\<close> still gives
  \<^verbatim>\<open>None\<close>, not the cached flag.\<close>

theorem enabled_after_show_counterexample:
  "(\<exists>s'. show rt0 radio_input = Inr s' \<and> visible s' \<and> u_enabled s' = PBool False
         \<and> get_enabled s' = (PNone, s'))
   \<and> (\<exists>s'. show rt0 inline_input = Inr s' \<and> visible s' \<and> u_enabled s' = PBool True
         \<and> get_enabled s' = (PNone, s'))"
proof -
  from radio_show_facts[OF radio_input_facts(1-3), of rt0] obtain s1 where
    s1: "show rt0 radio_input = Inr s1" "u_control s1 = None" "visible s1"
        "u_enabled s1 = u_enabled radio_input"
    by blast
  from inline_show_facts[OF inline_input_facts(1-3), of rt0] obtain s2 where
    s2: "show rt0 inline_input = Inr s2" "u_control s2 = None" "visible s2"
        "u_enabled s2 = u_enabled inline_input"
    by blast
  show ?thesis
    using s1 s2 radio_input_facts(4) inline_input_facts(4)
      get_enabled_None[OF s1(2)] get_enabled_None[OF s2(2)]
    by auto
qed

subsection \<open>The grid view\<close>

text \<open>
  Claim C2. With the toolkit grid modelled from the specification,
  \<^verbatim>\<open>update_grid(record, True)\<close> puts the row view of the record, taken over the
  columns of the view configuration, in front of the rows and so adds exactly one row;
  \<^verbatim>\<open>update_grid(record, False)\<close>, when the row view carries a \<^verbatim>\<open>uid\<close>, keeps the
  number of rows, replaces the rows whose \<^verbatim>\<open>uid\<close> is that of the row view by the row
  view, and leaves every other row as it was.
\<close>

theorem update_grid_patches_one_row:
  assumes "py_getitem (view_config g) ''columns'' = Inr columns"
  shows "update_grid env data_row (PBool True) g
           = Inr (g\<lparr>dataSource := get_row_view env data_row columns # dataSource g\<rparr>)
         \<and> (\<forall>uid. py_getitem (get_row_view env data_row columns) ''uid'' = Inr uid \<longrightarrow>
              (\<exists>g'. update_grid env data_row (PBool False) g = Inr g'
                 \<and> length (dataSource g') = length (dataSource g)
                 \<and> (\<forall>i < length (dataSource g).
                       dataSource g' ! i =
                         (if py_getitem (dataSource g ! i) ''uid'' = Inr uid
                          then get_row_view env data_row columns
                          else dataSource g ! i))))"
  using assms
  by (simp add: update_grid_def bind_err_def addRecord_def setRowData_def)

text \<open>Claim C2 at a grid of two rows: a third record is added on top, and an edited
  first record replaces the first row only.\<close>

theorem update_grid_patches_one_row_witness:
  "\<forall>g. map_sum id dataSource
          (update_grid order_env row_c (PBool True)
             (g\<lparr>view_config := orders_view, dataSource := [row_a, row_b]\<rparr>))
        = Inr [row_c, row_a, row_b]
      \<and> map_sum id dataSource
          (update_grid order_env row_a_edited (PBool False)
             (g\<lparr>view_config := orders_view, dataSource := [row_a, row_b]\<rparr>))
        = Inr [row_a_edited, row_b]"
proof
  fix g :: gridview
  let ?g = "g\<lparr>view_config := orders_view, dataSource := [row_a, row_b]\<rparr>"
  let ?cols = "PList [PDict [(''name'', PStr ''name''), (''label'', PStr ''Name'')],
                      PDict [(''name'', PStr ''customer.name''), (''label'', PStr ''Customer'')]]"
  have c: "py_getitem (view_config ?g) ''columns'' = Inr ?cols"
    by (simp add: orders_view_def)
  note t1 = update_grid_patches_one_row[OF c, of order_env row_c]
  note t2 = update_grid_patches_one_row[OF c, of order_env row_a_edited]
  have a: "map_sum id dataSource (update_grid order_env row_c (PBool True) ?g)
             = Inr [row_c, row_a, row_b]"
    using t1 by (simp add: order_env_def)
  from t2 obtain g' where
    g': "update_grid order_env row_a_edited (PBool False) ?g = Inr g'"
    and l: "length (dataSource g') = 2"
    and n: "\<forall>i<2. dataSource g' ! i =
               (if py_getitem ([row_a, row_b] ! i) ''uid'' = Inr (PStr ''a'')
                then row_a_edited else [row_a, row_b] ! i)"
    by (auto simp: order_env_def row_a_edited_def)
  have "dataSource g' ! 0 = row_a_edited" "dataSource g' ! 1 = row_b"
    using n by (simp_all add: row_defs)
  with l have "dataSource g' = [row_a_edited, row_b]"
    by (cases "dataSource g'" rule: list.exhaust; cases "tl (dataSource g')") auto
  with g' a
  show "map_sum id dataSource (update_grid order_env row_c (PBool True) ?g)
          = Inr [row_c, row_a, row_b]
        \<and> map_sum id dataSource (update_grid order_env row_a_edited (PBool False) ?g)
          = Inr [row_a_edited, row_b]"
    by simp
qed




text \<open>
  Claim C5. On the completion of a delete, the handler leaves the grid view as it is
  and deletes from the backing store exactly the records whose ids are among the
  selected rows: afterwards none of the selected ids resolves, every other id resolves
  as before, and a selected row whose id did not resolve is passed over. The handler
  is a total function: it never raises.
\<close>

theorem delete_handler_skips_missing_rows:
  assumes "requestType args = ''delete''" and "args_type args = ''actionComplete''"
  shows "\<exists>db'. grid_action_handler args (g, db) = (g, db')
           \<and> db' = filter (\<lambda>p. fst p \<notin> set (map (js_get ''uid'') (data args))) db
           \<and> (\<forall>row \<in> set (data args). model_get db' (js_get ''uid'' row) = None)
           \<and> (\<forall>u. u \<notin> set (map (js_get ''uid'') (data args)) \<longrightarrow> model_get db' u = model_get db u)"
  using assms
  by (simp add: grid_action_handler_def delete_rows_filter model_get_def map_of_filter_fst)

text \<open>Claim C5 at a store of three records and a selection of the first, a vanished
  row and the third: the second record is what remains.\<close>

theorem delete_handler_skips_missing_rows_witness:
  "\<forall>g. grid_action_handler delete_args (g, order_store) = (g, [(PStr ''b'', row_b)])"
proof
  fix g
  show "grid_action_handler delete_args (g, order_store) = (g, [(PStr ''b'', row_b)])"
    using delete_handler_skips_missing_rows[of delete_args g order_store]
    by (simp add: delete_args_def order_store_def)
qed

text \<open>
  Claim C9. Whenever the constructor succeeds, from an explicit view configuration, a
  stored view or the automatic view, the column list of the grid is the \<^verbatim>\<open>uid\<close>
  column followed by the columns built from the view configuration, preceded by nothing
  or by the one checkbox column of the selection mode. The \<^verbatim>\<open>uid\<close> column is the
  only column marked as primary key and the only one marked not visible; its field is
  \<^verbatim>\<open>uid\<close> and its width \<^verbatim>\<open>0px\<close>.
\<close>

theorem uid_column_is_the_primary_key:
  assumes "GridView_init env title m vn vc gm tb = Inr g"
  shows "\<exists>pre vcols columns cols.
           grid_columns g = pre @ uid_column # cols
           \<and> (pre = [] \<or> pre = [checkbox_column])
           \<and> py_getitem (view_config g) ''columns'' = Inr vcols \<and> py_iter vcols = Inr columns
           \<and> build_grid_columns env (model g) columns = Inr cols
           \<and> filter (\<lambda>c. py_getitem c ''isPrimaryKey'' = Inr (PBool True)) (grid_columns g) = [uid_column]
           \<and> filter (\<lambda>c. py_getitem c ''visible'' = Inr (PBool False)) (grid_columns g) = [uid_column]
           \<and> py_getitem uid_column ''field'' = Inr (PStr ''uid'')
           \<and> py_getitem uid_column ''width'' = Inr (PStr ''0px'')"
proof -
  from GridView_init_columns[OF assms] obtain vcols columns cols where
    v: "py_getitem (view_config g) ''columns'' = Inr vcols" "py_iter vcols = Inr columns" and
    b: "build_grid_columns env (model g) columns = Inr cols" and
    c: "grid_columns g = uid_column # cols \<or> grid_columns g = checkbox_column # uid_column # cols"
    by blast
  have pk: "filter (\<lambda>c. py_getitem c ''isPrimaryKey'' = Inr (PBool True)) cols = []"
    using build_grid_columns_keys[OF b] by (auto simp: filter_empty_conv)
  have vs: "filter (\<lambda>c. py_getitem c ''visible'' = Inr (PBool False)) cols = []"
    using build_grid_columns_keys[OF b] by (auto simp: filter_empty_conv)
  have u: "py_getitem uid_column ''isPrimaryKey'' = Inr (PBool True)"
    "py_getitem uid_column ''visible'' = Inr (PBool False)"
    "py_getitem uid_column ''field'' = Inr (PStr ''uid'')"
    "py_getitem uid_column ''width'' = Inr (PStr ''0px'')"
    by (simp_all add: uid_column_def)
  have k: "py_getitem checkbox_column ''isPrimaryKey'' \<noteq> Inr (PBool True)"
    "py_getitem checkbox_column ''visible'' \<noteq> Inr (PBool False)"
    by (simp_all add: checkbox_column_def)
  from c show ?thesis
  proof
    assume g: "grid_columns g = uid_column # cols"
    have "grid_columns g = [] @ uid_column # cols" using g by simp
    then show ?thesis using v b pk vs u g by (intro exI[of _ "[]"] exI conjI) simp_all
  next
    assume g: "grid_columns g = checkbox_column # uid_column # cols"
    have "grid_columns g = [checkbox_column] @ uid_column # cols" using g by simp
    then show ?thesis using v b pk vs u k g
      by (intro exI[of _ "[checkbox_column]"] exI conjI) simp_all
  qed
qed

text \<open>Claim C9 at the automatic view of the model \<^verbatim>\<open>Order\<close>: six columns, the
  checkbox column, the \<^verbatim>\<open>uid\<close> column and four derived ones.\<close>

theorem uid_column_is_the_primary_key_witness:
  "\<exists>g. GridView_init order_env None (Some ''Order'') None None PNone PNone = Inr g
     \<and> length (grid_columns g) = 6
     \<and> filter (\<lambda>c. py_getitem c ''isPrimaryKey'' = Inr (PBool True)) (grid_columns g) = [uid_column]"
proof -
  from order_grid_built obtain g where
    g: "GridView_init order_env None (Some ''Order'') None None PNone PNone = Inr g"
    and l: "length (grid_columns g) = 6"
    by (cases "GridView_init order_env None (Some ''Order'') None None PNone PNone") auto
  from uid_column_is_the_primary_key[OF g] l g show ?thesis by blast
qed

end
